theory Spec2Isabelle
  imports Main
begin

section \<open>Python values\<close>

text \<open>
  The provider passes untyped Python objects around: connection extras, vault secrets,
  client configurations, per-item results and the persisted return value are all
  dictionaries with string keys. A dictionary is an association list in insertion order;
  lookup takes the first binding of a key. Floats are left out: no modelled branch
  depends on one.
\<close>

datatype pyval =
    PNone
  | PBool bool
  | PInt int
  | PStr string
  | PList "pyval list"
  | PDict "(string \<times> pyval) list"

type_synonym dict = "(string \<times> pyval) list"

text \<open>Python truthiness, as used by \<open>if x\<close>, \<open>not x\<close> and \<open>x or y\<close>.\<close>

fun truthy :: "pyval \<Rightarrow> bool" where
  "truthy PNone = False"
| "truthy (PBool b) = b"
| "truthy (PInt i) = (i \<noteq> 0)"
| "truthy (PStr s) = (s \<noteq> [])"
| "truthy (PList xs) = (xs \<noteq> [])"
| "truthy (PDict d) = (d \<noteq> [])"

text \<open>\<open>d.get(k)\<close>: the value bound to \<open>k\<close>, or \<open>None\<close>.\<close>

definition dict_get :: "dict \<Rightarrow> string \<Rightarrow> pyval" where
  "dict_get d k = (case map_of d k of None \<Rightarrow> PNone | Some v \<Rightarrow> v)"

text \<open>\<open>d.get(k, default)\<close>.\<close>

definition dict_get_default :: "dict \<Rightarrow> string \<Rightarrow> pyval \<Rightarrow> pyval" where
  "dict_get_default d k dflt = (case map_of d k of None \<Rightarrow> dflt | Some v \<Rightarrow> v)"

text \<open>An optional string attribute as a Python value.\<close>

definition opt_str :: "string option \<Rightarrow> pyval" where
  "opt_str x = (case x of None \<Rightarrow> PNone | Some s \<Rightarrow> PStr s)"

text \<open>
  Exceptions. \<open>HostError\<close> stands for whatever an external collaborator raises
  (connection store, vault backend, JSON parser); its argument is the message.
\<close>

datatype error =
    AttributeError
  | TypeError
  | ValueError
  | KeyError string
  | HostError string
  | AirflowException string

section \<open>Secret references (hooks/r2index.py)\<close>

text \<open>
  \<open>s.rsplit(sep, 1)\<close> for a one-character separator: at most one split, made at the
  last occurrence of the separator.
\<close>

definition rsplit_once :: "char \<Rightarrow> string \<Rightarrow> string list" where
  "rsplit_once sep s =
     (if sep \<in> set s
      then [rev (tl (dropWhile (\<lambda>c. c \<noteq> sep) (rev s))),
            rev (takeWhile (\<lambda>c. c \<noteq> sep) (rev s))]
      else [s])"

text \<open>
  \<open>R2IndexHook._parse_secret_ref\<close>. The tuple assignment \<open>path, key = ...\<close> raises
  ValueError unless the split has exactly two parts.
\<close>

definition parse_secret_ref :: "string \<Rightarrow> string \<Rightarrow> error + (string \<times> string)" where
  "parse_secret_ref secret_ref default_key =
     (if CHR ''#'' \<in> set secret_ref
      then (case rsplit_once CHR ''#'' secret_ref of
              [path, key] \<Rightarrow> Inr (path, key)
            | _ \<Rightarrow> Inl ValueError)
      else Inr (secret_ref, default_key))"

section \<open>Link resolver (links/r2index.py)\<close>

text \<open>
  \<open>str(v)\<close> as the f-string applies it: a string is itself; for every other value of
  this model \<open>str\<close> coincides with \<open>repr\<close>, which is taken as a parameter.
\<close>

definition py_str :: "(pyval \<Rightarrow> string) \<Rightarrow> pyval \<Rightarrow> string" where
  "py_str repr v = (case v of PStr s \<Rightarrow> s | _ \<Rightarrow> repr v)"

text \<open>
  \<open>R2IndexFileLink.get_link\<close>, as a function of the value \<open>XCom.get_value\<close> returned.
  In \<open>result.get("id") or result.get("file_record", {}).get("id")\<close> the right operand is
  evaluated only when the left one is falsy, and \<open>.get\<close> on a value that is not a
  dictionary raises AttributeError.
\<close>

definition get_link :: "(pyval \<Rightarrow> string) \<Rightarrow> pyval \<Rightarrow> error + string" where
  "get_link repr result =
     (case result of
        PDict d \<Rightarrow>
          (if truthy result then
             (let a = dict_get d ''id'' in
              if truthy a
              then Inr (''https://r2index.elaunira.com/files/'' @ py_str repr a)
              else (case dict_get_default d ''file_record'' (PDict []) of
                      PDict fr \<Rightarrow>
                        (let file_id = dict_get fr ''id'' in
                         if truthy file_id
                         then Inr (''https://r2index.elaunira.com/files/'' @ py_str repr file_id)
                         else Inr [])
                    | _ \<Rightarrow> Inl AttributeError))
           else Inr [])
      | _ \<Rightarrow> Inr [])"

section \<open>Configuration resolution (hooks/r2index.py)\<close>

text \<open>
  The host's collaborators are parameters of the model, gathered in a record that stays
  fixed during one task execution: the connection store, the \<open>VaultHook\<close> constructor
  (which gives the hook's \<open>get_secret\<close>, from a secret path to the secret's data or
  \<open>None\<close>), \<open>json.loads\<close> and \<open>os.environ\<close>. Each may raise, except the environment.
  The two client functions stand for opening an \<open>AsyncR2IndexClient\<close> on a
  configuration and awaiting one transfer: \<open>Inl\<close> carries \<open>str(e)\<close> of the exception
  raised, \<open>Inr\<close> the dumped file record (for a download the path with the record, if any).
\<close>

record UploadItem =
  source :: string
  category :: string
  entity :: string
  extension :: string
  media_type :: string
  destination_path :: string
  destination_filename :: string
  destination_version :: string
  bucket :: "string option"
  name :: "string option"
  tags :: "string list option"
  extra :: "dict option"
  create_checksum_files :: bool
  r2index_conn_id :: "string option"

record DownloadItem =
  source_path :: string
  source_filename :: string
  source_version :: string
  destination :: string
  bucket :: "string option"
  verify_checksum :: bool
  overwrite :: bool
  r2index_conn_id :: "string option"

record connection =
  host :: "string option"
  password :: "string option"
  extra_dejson :: dict

type_synonym vault_hook = "string \<Rightarrow> error + dict option"

record world =
  get_connection :: "string \<Rightarrow> error + connection"
  VaultHook :: "pyval \<Rightarrow> error + vault_hook"
  json_loads :: "string \<Rightarrow> error + pyval"
  environ :: "string \<Rightarrow> string option"
  client_upload :: "dict \<Rightarrow> string \<Rightarrow> UploadItem \<Rightarrow> pyval option \<Rightarrow> string + pyval"
  client_download ::
    "dict \<Rightarrow> string \<Rightarrow> DownloadItem \<Rightarrow> pyval option \<Rightarrow> string + (string \<times> pyval option)"

text \<open>The calls made to the collaborators during resolution, in order.\<close>

datatype io_event =
    GetConnection string
  | VaultHookInit pyval
  | VaultGetSecret string
  | EnvironGet string

text \<open>\<open>R2IndexHook._get_config_from_env\<close>: five reads, absent variables give \<open>None\<close>.\<close>

definition get_config_from_env :: "world \<Rightarrow> dict \<times> io_event list" where
  "get_config_from_env w =
     ([(''index_api_url'', opt_str (environ w ''R2INDEX_API_URL'')),
       (''index_api_token'', opt_str (environ w ''R2INDEX_API_TOKEN'')),
       (''r2_access_key_id'', opt_str (environ w ''R2_ACCESS_KEY_ID'')),
       (''r2_secret_access_key'', opt_str (environ w ''R2_SECRET_ACCESS_KEY'')),
       (''r2_endpoint_url'', opt_str (environ w ''R2_ENDPOINT_URL''))],
      [EnvironGet ''R2INDEX_API_URL'', EnvironGet ''R2INDEX_API_TOKEN'',
       EnvironGet ''R2_ACCESS_KEY_ID'', EnvironGet ''R2_SECRET_ACCESS_KEY'',
       EnvironGet ''R2_ENDPOINT_URL''])"

text \<open>
  The closure \<open>get_secret_value\<close> of \<open>_get_config_from_vault\<close>, with its
  \<open>secret_cache\<close> and the calls made so far passed as state. \<open>secrets.get\<close> raises
  AttributeError when the mapping is not a dictionary. A truthy reference that is not a
  string raises before any fetch (\<open>"#" in secret_ref\<close>, \<open>.rsplit\<close> or the hashing of
  \<open>path\<close> fails, with TypeError or AttributeError); the model raises TypeError for all
  of them, the handler being the same. \<open>data or {}\<close> turns a missing secret into the
  empty dictionary.
\<close>

definition get_secret_value ::
  "vault_hook \<Rightarrow> pyval \<Rightarrow> string \<Rightarrow> (string \<rightharpoonup> dict) \<times> io_event list
     \<Rightarrow> (error + pyval) \<times> (string \<rightharpoonup> dict) \<times> io_event list" where
  "get_secret_value hook secrets config_key st =
     (case st of (secret_cache, ev) \<Rightarrow>
      (case secrets of
         PDict m \<Rightarrow>
           (let secret_ref = dict_get m config_key in
            if \<not> truthy secret_ref then (Inr PNone, secret_cache, ev)
            else
              (case secret_ref of
                 PStr r \<Rightarrow>
                   (case parse_secret_ref r config_key of
                      Inl e \<Rightarrow> (Inl e, secret_cache, ev)
                    | Inr (path, key) \<Rightarrow>
                        (case secret_cache path of
                           Some d \<Rightarrow> (Inr (dict_get d key), secret_cache, ev)
                         | None \<Rightarrow>
                             (case hook path of
                                Inl e \<Rightarrow> (Inl e, secret_cache, ev @ [VaultGetSecret path])
                              | Inr data \<Rightarrow>
                                  (let d = (case data of
                                              None \<Rightarrow> []
                                            | Some d' \<Rightarrow> (if d' \<noteq> [] then d' else []))
                                   in (Inr (dict_get d key), secret_cache(path \<mapsto> d),
                                       ev @ [VaultGetSecret path])))))
               | _ \<Rightarrow> (Inl TypeError, secret_cache, ev)))
       | _ \<Rightarrow> (Inl AttributeError, secret_cache, ev)))"

text \<open>
  The entries of the dictionary literal built by \<open>_get_config_from_vault\<close>: the key of
  the configuration and the key of the secrets mapping it is fetched under.
\<close>

definition config_fields :: "(string \<times> string) list" where
  "config_fields =
     [(''index_api_url'', ''r2index_api_url''),
      (''index_api_token'', ''r2index_api_token''),
      (''r2_access_key_id'', ''r2_access_key_id''),
      (''r2_secret_access_key'', ''r2_secret_access_key''),
      (''r2_endpoint_url'', ''r2_endpoint_url'')]"

text \<open>The literal is evaluated entry by entry; the first exception ends it.\<close>

fun get_secret_values ::
  "vault_hook \<Rightarrow> pyval \<Rightarrow> (string \<times> string) list \<Rightarrow> (string \<rightharpoonup> dict) \<times> io_event list
     \<Rightarrow> (error + dict) \<times> (string \<rightharpoonup> dict) \<times> io_event list" where
  "get_secret_values hook secrets [] st = (Inr [], st)"
| "get_secret_values hook secrets ((field, config_key) # rest) st =
     (case get_secret_value hook secrets config_key st of
        (Inl e, st') \<Rightarrow> (Inl e, st')
      | (Inr v, st') \<Rightarrow>
          (case get_secret_values hook secrets rest st' of
             (Inl e, st'') \<Rightarrow> (Inl e, st'')
           | (Inr vs, st'') \<Rightarrow> (Inr ((field, v) # vs), st'')))"

text \<open>
  \<open>R2IndexHook._get_config_from_vault\<close>: every exception raised in the body, by the
  hook's constructor or by a fetch, is caught and gives \<open>None\<close>. The namespace argument
  is not used by the source.
\<close>

definition get_config_from_vault ::
  "world \<Rightarrow> pyval \<Rightarrow> pyval \<Rightarrow> pyval \<Rightarrow> dict option \<times> io_event list" where
  "get_config_from_vault w vault_conn_id secrets namespace =
     (case VaultHook w vault_conn_id of
        Inl e \<Rightarrow> (None, [VaultHookInit vault_conn_id])
      | Inr vault_hook \<Rightarrow>
          (case get_secret_values vault_hook secrets config_fields
                  (Map.empty, [VaultHookInit vault_conn_id]) of
             (Inl e, secret_cache, ev) \<Rightarrow> (None, ev)
           | (Inr config, secret_cache, ev) \<Rightarrow> (Some config, ev)))"

text \<open>\<open>R2IndexHook._get_config_from_connection\<close>.\<close>

definition get_config_from_connection ::
  "world \<Rightarrow> string \<Rightarrow> dict option \<times> io_event list" where
  "get_config_from_connection w conn_id =
     (case get_connection w conn_id of
        Inl e \<Rightarrow> (None, [GetConnection conn_id])
      | Inr conn \<Rightarrow>
          (let extra = extra_dejson conn;
               vault_conn_id = dict_get extra ''vault_conn_id''
           in if truthy vault_conn_id then
                (let secrets_raw = dict_get extra ''vault_secrets_mapping'' in
                 if \<not> truthy secrets_raw then (None, [GetConnection conn_id])
                 else
                   (case (case secrets_raw of PStr s \<Rightarrow> json_loads w s | _ \<Rightarrow> Inr secrets_raw) of
                      Inl e \<Rightarrow> (None, [GetConnection conn_id])
                    | Inr secrets \<Rightarrow>
                        (case get_config_from_vault w vault_conn_id secrets
                                (dict_get extra ''vault_namespace'') of
                           (config, ev) \<Rightarrow> (config, GetConnection conn_id # ev))))
              else
                (Some [(''index_api_url'', opt_str (host conn)),
                       (''index_api_token'', opt_str (password conn)),
                       (''r2_access_key_id'', dict_get extra ''r2_access_key_id''),
                       (''r2_secret_access_key'', dict_get extra ''r2_secret_access_key''),
                       (''r2_endpoint_url'', dict_get extra ''r2_endpoint_url'')],
                 [GetConnection conn_id])))"

text \<open>
  \<open>_get_client_config\<close>, the same in both operators (and the test of \<open>get_conn\<close>):
  the environment is read when the connection gave nothing or a falsy
  \<open>index_api_url\<close>; \<open>config or {}\<close> closes it.
\<close>

definition get_client_config :: "world \<Rightarrow> string \<Rightarrow> dict \<times> io_event list" where
  "get_client_config w conn_id =
     (case get_config_from_connection w conn_id of
        (config, ev) \<Rightarrow>
          (case (if (case config of None \<Rightarrow> True
                                  | Some c \<Rightarrow> \<not> truthy (dict_get c ''index_api_url''))
                 then (case get_config_from_env w of (c, ev') \<Rightarrow> (Some c, ev @ ev'))
                 else (config, ev)) of
             (config', ev'') \<Rightarrow>
               ((case config' of None \<Rightarrow> [] | Some c \<Rightarrow> (if c \<noteq> [] then c else [])), ev'')))"

section \<open>Operators (operators/r2index.py)\<close>

record R2IndexUploadOperator =
  bucket :: string
  items :: "UploadItem list"
  r2index_conn_id :: string
  transfer_config :: "pyval option"

record R2IndexDownloadOperator =
  bucket :: string
  items :: "DownloadItem list"
  r2index_conn_id :: string
  transfer_config :: "pyval option"

text \<open>The \<open>items\<close> argument of the constructors: one item or a list of them.\<close>

datatype 'i items_arg = Single 'i | Many "'i list"

text \<open>\<open>[items] if isinstance(items, UploadItem) else items\<close>, and its download twin.\<close>

definition normalise_items :: "'i items_arg \<Rightarrow> 'i list" where
  "normalise_items arg = (case arg of Single item \<Rightarrow> [item] | Many xs \<Rightarrow> xs)"

definition upload_init ::
  "string \<Rightarrow> UploadItem items_arg \<Rightarrow> string \<Rightarrow> pyval option \<Rightarrow> R2IndexUploadOperator" where
  "upload_init b arg conn_id tc =
     \<lparr>R2IndexUploadOperator.bucket = b, items = normalise_items arg,
      r2index_conn_id = conn_id, transfer_config = tc\<rparr>"

definition download_init ::
  "string \<Rightarrow> DownloadItem items_arg \<Rightarrow> string \<Rightarrow> pyval option \<Rightarrow> R2IndexDownloadOperator" where
  "download_init b arg conn_id tc =
     \<lparr>R2IndexDownloadOperator.bucket = b, items = normalise_items arg,
      r2index_conn_id = conn_id, transfer_config = tc\<rparr>"

text \<open>\<open>x or y\<close> for an optional string attribute and a string default.\<close>

definition str_or :: "string option \<Rightarrow> string \<Rightarrow> string" where
  "str_or x y = (case x of None \<Rightarrow> y | Some s \<Rightarrow> (if s \<noteq> [] then s else y))"

subsection \<open>One batch execution\<close>

text \<open>
  What one \<open>execute\<close> does that can be observed from outside: a resolution of a
  connection's client configuration (with the calls it made), and a transfer handed to
  the client for the item at a position.
\<close>

datatype event =
    GetClientConfig string "io_event list"
  | ClientCall nat

text \<open>
  The coroutine of one item has a single point where it can be suspended, the client
  call: \<open>await get_or_create_config(conn_id)\<close> awaits a coroutine whose body has no
  \<open>await\<close>, so everything up to the \<open>try\<close> runs without yielding to the event loop. A task
  is thus pending, or suspended in the client with its bucket and configuration, or done
  with its result.
\<close>

datatype 'i task =
    Pending 'i
  | Awaiting 'i string dict
  | Done dict

record 'i batch =
  conn_configs :: "string \<rightharpoonup> dict"
  tasks :: "'i task list"
  trace :: "event list"

text \<open>The closure \<open>get_or_create_config\<close> of \<open>execute\<close>, the same in both operators.\<close>

definition get_or_create_config :: "world \<Rightarrow> string \<Rightarrow> 'i batch \<Rightarrow> dict \<times> 'i batch" where
  "get_or_create_config w conn_id st =
     (case conn_configs st conn_id of
        None \<Rightarrow>
          (case get_client_config w conn_id of
             (config, ev) \<Rightarrow>
               (config, st\<lparr>conn_configs := (conn_configs st)(conn_id \<mapsto> config),
                           trace := trace st @ [GetClientConfig conn_id ev]\<rparr>))
      | Some config \<Rightarrow> (config, st))"

text \<open>
  One turn of the event loop for the task at position \<open>i\<close>: a pending task runs up to
  its client call, a suspended one completes with the result of its \<open>try\<close> statement, a
  finished one is left alone. \<open>ids\<close> gives the effective connection and bucket of an
  item, \<open>transfer\<close> the result of the \<open>try\<close> statement.
\<close>

definition task_step ::
  "world \<Rightarrow> ('i \<Rightarrow> string \<times> string) \<Rightarrow> (dict \<Rightarrow> string \<Rightarrow> 'i \<Rightarrow> dict)
     \<Rightarrow> nat \<Rightarrow> 'i batch \<Rightarrow> 'i batch" where
  "task_step w ids transfer i st =
     (if i < length (tasks st) then
        (case tasks st ! i of
           Pending item \<Rightarrow>
             (case ids item of
                (conn_id, b) \<Rightarrow>
                  (case get_or_create_config w conn_id st of
                     (config, st') \<Rightarrow>
                       st'\<lparr>tasks := (tasks st')[i := Awaiting item b config]\<rparr>))
         | Awaiting item b config \<Rightarrow>
             st\<lparr>tasks := (tasks st)[i := Done (transfer config b item)],
                trace := trace st @ [ClientCall i]\<rparr>
         | Done r \<Rightarrow> st)
      else st)"

text \<open>The results of the tasks in task order, once all are done.\<close>

fun collect :: "'i task list \<Rightarrow> dict list option" where
  "collect [] = Some []"
| "collect (Done r # ts) = (case collect ts of None \<Rightarrow> None | Some rs \<Rightarrow> Some (r # rs))"
| "collect (t # ts) = None"

text \<open>
  \<open>asyncio.run\<close> of \<open>asyncio.gather(*tasks)\<close>: one task per item, in item order. The
  tasks take turns in an order the code does not control, given here by a schedule of
  task positions (positions outside the list are idle turns); the loop then runs whatever
  is left of every task, and the results come back in task order. Every interleaving of
  the tasks' steps is the run of some schedule.
\<close>

definition gather ::
  "world \<Rightarrow> ('i \<Rightarrow> string \<times> string) \<Rightarrow> (dict \<Rightarrow> string \<Rightarrow> 'i \<Rightarrow> dict)
     \<Rightarrow> 'i list \<Rightarrow> nat list \<Rightarrow> dict list option \<times> event list" where
  "gather w ids transfer xs sched =
     (let n = length xs;
          st = fold (task_step w ids transfer) (sched @ [0..<n] @ [0..<n])
                 \<lparr>conn_configs = Map.empty, tasks = map Pending xs, trace = []\<rparr>
      in (collect (tasks st), trace st))"

subsection \<open>Upload\<close>

definition upload_ids :: "R2IndexUploadOperator \<Rightarrow> UploadItem \<Rightarrow> string \<times> string" where
  "upload_ids self item =
     (str_or (UploadItem.r2index_conn_id item) (R2IndexUploadOperator.r2index_conn_id self),
      str_or (UploadItem.bucket item) (R2IndexUploadOperator.bucket self))"

text \<open>The \<open>try\<close> statement of \<open>upload_one\<close>.\<close>

definition upload_transfer ::
  "world \<Rightarrow> R2IndexUploadOperator \<Rightarrow> dict \<Rightarrow> string \<Rightarrow> UploadItem \<Rightarrow> dict" where
  "upload_transfer w self config b item =
     (case client_upload w config b item (R2IndexUploadOperator.transfer_config self) of
        Inr file_record \<Rightarrow> [(''status'', PStr ''success''), (''file_record'', file_record)]
      | Inl msg \<Rightarrow>
          [(''status'', PStr ''error''), (''message'', PStr msg),
           (''source'', PStr (source item))])"

definition upload_all ::
  "world \<Rightarrow> R2IndexUploadOperator \<Rightarrow> nat list \<Rightarrow> dict list option \<times> event list" where
  "upload_all w self sched =
     gather w (upload_ids self) (upload_transfer w self) (R2IndexUploadOperator.items self) sched"

text \<open>Decimal digits of a length, as \<open>f"{len(errors)}"\<close> prints it.\<close>

fun string_of_nat :: "nat \<Rightarrow> string" where
  "string_of_nat n =
     (if n < 10 then [''0123456789'' ! n]
      else string_of_nat (n div 10) @ [''0123456789'' ! (n mod 10)])"

text \<open>\<open>d[k]\<close>, raising KeyError for a missing key.\<close>

definition dict_item :: "dict \<Rightarrow> string \<Rightarrow> error + pyval" where
  "dict_item d k = (case map_of d k of None \<Rightarrow> Inl (KeyError k) | Some v \<Rightarrow> Inr v)"

text \<open>A list comprehension whose element expression may raise.\<close>

fun comprehension :: "('a \<Rightarrow> error + 'b) \<Rightarrow> 'a list \<Rightarrow> error + 'b list" where
  "comprehension f [] = Inr []"
| "comprehension f (x # xs) =
     (case f x of
        Inl e \<Rightarrow> Inl e
      | Inr y \<Rightarrow> (case comprehension f xs of Inl e \<Rightarrow> Inl e | Inr ys \<Rightarrow> Inr (y # ys)))"

text \<open>
  \<open>R2IndexUploadOperator.execute\<close>: the value returned or the exception raised
  (\<open>None\<close> if the gathering never came back), and the trace of the execution.
\<close>

definition upload_execute ::
  "world \<Rightarrow> R2IndexUploadOperator \<Rightarrow> nat list \<Rightarrow> (error + pyval list) option \<times> event list" where
  "upload_execute w self sched =
     (case upload_all w self sched of
        (None, tr) \<Rightarrow> (None, tr)
      | (Some results, tr) \<Rightarrow>
          (let errors = filter (\<lambda>r. dict_get r ''status'' = PStr ''error'') results in
           if errors \<noteq> [] then
             (Some (Inl (AirflowException
                (string_of_nat (length errors) @ ''/'' @ string_of_nat (length results)
                   @ '' uploads failed''))), tr)
           else (Some (comprehension (\<lambda>r. dict_item r ''file_record'') results), tr)))"

subsection \<open>Download\<close>

definition download_ids :: "R2IndexDownloadOperator \<Rightarrow> DownloadItem \<Rightarrow> string \<times> string" where
  "download_ids self item =
     (str_or (DownloadItem.r2index_conn_id item) (R2IndexDownloadOperator.r2index_conn_id self),
      str_or (DownloadItem.bucket item) (R2IndexDownloadOperator.bucket self))"

text \<open>The \<open>try\<close> statement of \<open>download_one\<close>.\<close>

definition download_transfer ::
  "world \<Rightarrow> R2IndexDownloadOperator \<Rightarrow> dict \<Rightarrow> string \<Rightarrow> DownloadItem \<Rightarrow> dict" where
  "download_transfer w self config b item =
     (case client_download w config b item (R2IndexDownloadOperator.transfer_config self) of
        Inr (downloaded_path, file_record) \<Rightarrow>
          [(''status'', PStr ''success''), (''path'', PStr downloaded_path),
           (''file_record'', (case file_record of None \<Rightarrow> PNone | Some fr \<Rightarrow> fr))]
      | Inl msg \<Rightarrow>
          [(''status'', PStr ''error''), (''message'', PStr msg),
           (''source_path'', PStr (source_path item))])"

definition download_all ::
  "world \<Rightarrow> R2IndexDownloadOperator \<Rightarrow> nat list \<Rightarrow> dict list option \<times> event list" where
  "download_all w self sched =
     gather w (download_ids self) (download_transfer w self)
       (R2IndexDownloadOperator.items self) sched"

text \<open>\<open>R2IndexDownloadOperator.execute\<close>.\<close>

definition download_execute ::
  "world \<Rightarrow> R2IndexDownloadOperator \<Rightarrow> nat list \<Rightarrow> (error + pyval list) option \<times> event list" where
  "download_execute w self sched =
     (case download_all w self sched of
        (None, tr) \<Rightarrow> (None, tr)
      | (Some results, tr) \<Rightarrow>
          (let errors = filter (\<lambda>r. dict_get r ''status'' = PStr ''error'') results in
           if errors \<noteq> [] then
             (Some (Inl (AirflowException
                (string_of_nat (length errors) @ ''/'' @ string_of_nat (length results)
                   @ '' downloads failed''))), tr)
           else
             (Some (comprehension
                (\<lambda>r. case dict_item r ''path'' of
                        Inl e \<Rightarrow> Inl e
                      | Inr p \<Rightarrow>
                          (case dict_item r ''file_record'' of
                             Inl e \<Rightarrow> Inl e
                           | Inr fr \<Rightarrow> Inr (PDict [(''path'', p), (''file_record'', fr)])))
                results), tr)))"

section \<open>Notions used in the statements\<close>

text \<open>
  An item's coroutine run on its own: the \<open>try\<close> statement under the configuration that
  \<open>_get_client_config\<close> gives for the item's effective connection.
\<close>

definition run_one ::
  "world \<Rightarrow> ('i \<Rightarrow> string \<times> string) \<Rightarrow> (dict \<Rightarrow> string \<Rightarrow> 'i \<Rightarrow> dict) \<Rightarrow> 'i \<Rightarrow> dict" where
  "run_one w ids transfer item =
     (case ids item of (conn_id, b) \<Rightarrow> transfer (fst (get_client_config w conn_id)) b item)"

subsection \<open>Reading a trace\<close>

text \<open>The connections resolved, in order of resolution.\<close>

fun resolved :: "event list \<Rightarrow> string list" where
  "resolved [] = []"
| "resolved (GetClientConfig c ev # tr) = c # resolved tr"
| "resolved (ClientCall i # tr) = resolved tr"

text \<open>The positions of the items handed to the client, in order of the calls.\<close>

fun calls :: "event list \<Rightarrow> nat list" where
  "calls [] = []"
| "calls (GetClientConfig c ev # tr) = calls tr"
| "calls (ClientCall i # tr) = i # calls tr"

subsection \<open>The invariant of a batch\<close>

text \<open>How far a task has got.\<close>

fun rank :: "'i task \<Rightarrow> nat" where
  "rank (Pending item) = 0"
| "rank (Awaiting item b config) = 1"
| "rank (Done r) = 2"

text \<open>
  A task belongs to the item at its position: it still holds it, or holds what the item's
  own run computes.
\<close>

definition task_ok ::
  "world \<Rightarrow> ('i \<Rightarrow> string \<times> string) \<Rightarrow> (dict \<Rightarrow> string \<Rightarrow> 'i \<Rightarrow> dict) \<Rightarrow> 'i \<Rightarrow> 'i task \<Rightarrow> bool" where
  "task_ok w ids transfer item t =
     (case t of
        Pending it \<Rightarrow> it = item
      | Awaiting it b config \<Rightarrow>
          it = item \<and> b = snd (ids item) \<and> config = fst (get_client_config w (fst (ids item)))
      | Done r \<Rightarrow> r = run_one w ids transfer item)"

text \<open>
  What every turn of the event loop preserves: the cache holds exactly the connections
  resolved so far, each once and with the configuration its resolution gives, and the
  client has been called exactly for the finished tasks.
\<close>

definition batch_inv ::
  "world \<Rightarrow> ('i \<Rightarrow> string \<times> string) \<Rightarrow> (dict \<Rightarrow> string \<Rightarrow> 'i \<Rightarrow> dict) \<Rightarrow> 'i list \<Rightarrow> 'i batch \<Rightarrow> bool" where
  "batch_inv w ids transfer xs st \<longleftrightarrow>
     length (tasks st) = length xs \<and>
     (\<forall>i<length xs. task_ok w ids transfer (xs ! i) (tasks st ! i)) \<and>
     (\<forall>c config. conn_configs st c = Some config \<longrightarrow> config = fst (get_client_config w c)) \<and>
     distinct (resolved (trace st)) \<and>
     set (resolved (trace st)) = dom (conn_configs st) \<and>
     dom (conn_configs st) \<subseteq> (\<lambda>x. fst (ids x)) ` set xs \<and>
     (\<forall>i<length xs. 0 < rank (tasks st ! i) \<longrightarrow> fst (ids (xs ! i)) \<in> dom (conn_configs st)) \<and>
     (\<forall>c ev. GetClientConfig c ev \<in> set (trace st) \<longrightarrow> ev = snd (get_client_config w c)) \<and>
     distinct (calls (trace st)) \<and>
     set (calls (trace st)) = {i. i < length xs \<and> rank (tasks st ! i) = 2}"

text \<open>The state in which \<open>gather\<close> reads the results.\<close>

definition final_batch ::
  "world \<Rightarrow> ('i \<Rightarrow> string \<times> string) \<Rightarrow> (dict \<Rightarrow> string \<Rightarrow> 'i \<Rightarrow> dict) \<Rightarrow> 'i list \<Rightarrow> nat list \<Rightarrow> 'i batch" where
  "final_batch w ids transfer xs sched =
     fold (task_step w ids transfer) (sched @ [0..<length xs] @ [0..<length xs])
       \<lparr>conn_configs = Map.empty, tasks = map Pending xs, trace = []\<rparr>"

subsection \<open>An item on its own\<close>

text \<open>
  What the client answers for an upload item: the call of \<open>upload_one\<close>, under the
  item's effective connection and bucket.
\<close>

definition upload_outcome :: "world \<Rightarrow> R2IndexUploadOperator \<Rightarrow> UploadItem \<Rightarrow> string + pyval" where
  "upload_outcome w self item =
     (case upload_ids self item of
        (conn_id, b) \<Rightarrow>
          client_upload w (fst (get_client_config w conn_id)) b item
            (R2IndexUploadOperator.transfer_config self))"

text \<open>\<open>upload_one\<close> run on its own, without the other items.\<close>

definition upload_one :: "world \<Rightarrow> R2IndexUploadOperator \<Rightarrow> UploadItem \<Rightarrow> dict" where
  "upload_one w self item =
     (case upload_outcome w self item of
        Inr file_record \<Rightarrow> [(''status'', PStr ''success''), (''file_record'', file_record)]
      | Inl msg \<Rightarrow>
          [(''status'', PStr ''error''), (''message'', PStr msg),
           (''source'', PStr (source item))])"

text \<open>The same for a download item.\<close>

definition download_outcome ::
  "world \<Rightarrow> R2IndexDownloadOperator \<Rightarrow> DownloadItem \<Rightarrow> string + (string \<times> pyval option)" where
  "download_outcome w self item =
     (case download_ids self item of
        (conn_id, b) \<Rightarrow>
          client_download w (fst (get_client_config w conn_id)) b item
            (R2IndexDownloadOperator.transfer_config self))"

text \<open>\<open>download_one\<close> run on its own.\<close>

definition download_one :: "world \<Rightarrow> R2IndexDownloadOperator \<Rightarrow> DownloadItem \<Rightarrow> dict" where
  "download_one w self item =
     (case download_outcome w self item of
        Inr (downloaded_path, file_record) \<Rightarrow>
          [(''status'', PStr ''success''), (''path'', PStr downloaded_path),
           (''file_record'', (case file_record of None \<Rightarrow> PNone | Some fr \<Rightarrow> fr))]
      | Inl msg \<Rightarrow>
          [(''status'', PStr ''error''), (''message'', PStr msg),
           (''source_path'', PStr (source_path item))])"

subsection \<open>Examples\<close>

text \<open>
  A host with one direct connection, no vault and an empty environment, and a client
  that fails on one source and otherwise answers a record naming what it transferred.
\<close>

definition example_world :: world where
  "example_world =
     \<lparr>get_connection =
        (\<lambda>c. if c = ''r2index_default''
              then Inr \<lparr>host = Some ''https://api.test'', password = Some ''token'',
                        extra_dejson = []\<rparr>
              else Inl (HostError ''connection not found'')),
      VaultHook = (\<lambda>v. Inl (HostError ''no vault'')),
      json_loads = (\<lambda>s. Inl (HostError ''invalid json'')),
      environ = (\<lambda>v. None),
      client_upload =
        (\<lambda>config b item tc.
           if source item = ''/tmp/missing.csv'' then Inl ''file not found''
           else Inr (PDict [(''id'', PStr (source item))])),
      client_download =
        (\<lambda>config b item tc.
           if source_path item = ''acme/missing'' then Inl ''object not found''
           else Inr (destination item, Some (PDict [(''id'', PStr (source_path item))])))\<rparr>"

definition example_upload_item :: "string \<Rightarrow> UploadItem" where
  "example_upload_item src =
     \<lparr>source = src, category = ''acme'', entity = ''acme-data'', extension = ''csv'',
      media_type = ''text/csv'', destination_path = ''acme/data'',
      destination_filename = ''data.csv'', destination_version = ''v1'',
      UploadItem.bucket = None, name = None, tags = None, extra = None,
      create_checksum_files = False, UploadItem.r2index_conn_id = None\<rparr>"

definition example_download_item :: "string \<Rightarrow> DownloadItem" where
  "example_download_item p =
     \<lparr>source_path = p, source_filename = ''data.csv'', source_version = ''v1'',
      destination = ''/tmp/out.csv'', DownloadItem.bucket = None, verify_checksum = True,
      overwrite = True, DownloadItem.r2index_conn_id = None\<rparr>"

definition example_upload :: "UploadItem list \<Rightarrow> R2IndexUploadOperator" where
  "example_upload xs = upload_init ''my-bucket'' (Many xs) ''r2index_default'' None"

definition example_download :: "DownloadItem list \<Rightarrow> R2IndexDownloadOperator" where
  "example_download xs = download_init ''my-bucket'' (Many xs) ''r2index_default'' None"

text \<open>
  What claim C7 asks of an element of the returned sequence: a dictionary whose
  \<open>status\<close> is \<open>"success"\<close> or \<open>"error"\<close>.
\<close>

definition carries_status :: "pyval \<Rightarrow> bool" where
  "carries_status v =
     (case v of
        PDict d \<Rightarrow> dict_get d ''status'' = PStr ''success'' \<or> dict_get d ''status'' = PStr ''error''
      | _ \<Rightarrow> False)"

subsection \<open>Secrets\<close>

text \<open>\<open>data or {}\<close> for what the hook answered.\<close>

definition secret_data :: "dict option \<Rightarrow> dict" where
  "secret_data data = (case data of None \<Rightarrow> [] | Some d \<Rightarrow> d)"

text \<open>
  One key looked up without the cache: what \<open>get_secret_value\<close> computes when the
  path has not been fetched yet.
\<close>

definition secret_lookup :: "vault_hook \<Rightarrow> pyval \<Rightarrow> string \<Rightarrow> error + pyval" where
  "secret_lookup hook secrets config_key =
     (case secrets of
        PDict m \<Rightarrow>
          (let secret_ref = dict_get m config_key in
           if \<not> truthy secret_ref then Inr PNone
           else
             (case secret_ref of
                PStr r \<Rightarrow>
                  (case parse_secret_ref r config_key of
                     Inl e \<Rightarrow> Inl e
                   | Inr (path, key) \<Rightarrow>
                       (case hook path of
                          Inl e \<Rightarrow> Inl e
                        | Inr data \<Rightarrow>
                            Inr (dict_get (secret_data data) key)))
              | _ \<Rightarrow> Inl TypeError))
      | _ \<Rightarrow> Inl AttributeError)"

text \<open>A cache holds only what the hook answered for a path, \<open>None\<close> as the empty dictionary.\<close>

definition cache_ok :: "vault_hook \<Rightarrow> (string \<rightharpoonup> dict) \<Rightarrow> bool" where
  "cache_ok hook secret_cache \<longleftrightarrow>
     (\<forall>path d. secret_cache path = Some d \<longrightarrow>
        (\<exists>data. hook path = Inr data \<and> d = secret_data data))"

text \<open>
  The mapping of the hook's documentation, with the token under a path of its own, and a
  vault that answers the token's path as told.
\<close>

definition example_secrets :: pyval where
  "example_secrets =
     PDict [(''r2index_api_url'', PStr ''cloudflare/r2index#api-url''),
            (''r2index_api_token'', PStr ''cloudflare/token#api-token''),
            (''r2_access_key_id'', PStr ''cloudflare/r2/airflow#access-key-id''),
            (''r2_secret_access_key'', PStr ''cloudflare/r2/airflow#secret-access-key''),
            (''r2_endpoint_url'', PStr ''cloudflare/r2/airflow#endpoint-url'')]"

definition example_vault :: "error + dict option \<Rightarrow> vault_hook" where
  "example_vault token_answer path =
     (if path = ''cloudflare/r2index''
      then Inr (Some [(''api-url'', PStr ''https://index.test'')])
      else if path = ''cloudflare/token'' then token_answer
      else if path = ''cloudflare/r2/airflow''
      then Inr (Some [(''access-key-id'', PStr ''AK''), (''secret-access-key'', PStr ''SK''),
                      (''endpoint-url'', PStr ''https://r2.test'')])
      else Inr None)"

definition vault_world :: "error + dict option \<Rightarrow> world" where
  "vault_world token_answer =
     example_world
       \<lparr>get_connection :=
          (\<lambda>c. if c = ''r2index_default''
                then Inr \<lparr>host = Some ''https://direct.test'', password = Some ''direct-token'',
                          extra_dejson = [(''vault_conn_id'', PStr ''openbao_default''),
                                          (''vault_secrets_mapping'', example_secrets)]\<rparr>
                else Inl (HostError ''connection not found'')),
        VaultHook :=
          (\<lambda>v. if v = PStr ''openbao_default'' then Inr (example_vault token_answer)
                else Inl (HostError ''unknown vault''))\<rparr>"

subsection \<open>Tiers\<close>

text \<open>A configuration is usable when its \<open>index_api_url\<close> is truthy.\<close>

definition usable :: "dict \<Rightarrow> bool" where
  "usable config = truthy (dict_get config ''index_api_url'')"

text \<open>A call that reads the environment.\<close>

fun is_env_read :: "io_event \<Rightarrow> bool" where
  "is_env_read (EnvironGet v) = True"
| "is_env_read e = False"

text \<open>The direct fields of a connection, as \<open>_get_config_from_connection\<close> reads them.\<close>

definition direct_fields :: "connection \<Rightarrow> dict" where
  "direct_fields conn =
     [(''index_api_url'', opt_str (host conn)),
      (''index_api_token'', opt_str (password conn)),
      (''r2_access_key_id'', dict_get (extra_dejson conn) ''r2_access_key_id''),
      (''r2_secret_access_key'', dict_get (extra_dejson conn) ''r2_secret_access_key''),
      (''r2_endpoint_url'', dict_get (extra_dejson conn) ''r2_endpoint_url'')]"

text \<open>
  Claim C4 read as it is worded: three resolvers, each giving a configuration or none,
  tried in order until one gives a usable configuration. The vault resolver is the
  source's own for a connection with a vault reference, the direct resolver reads the
  fields of the connection, the environment resolver always answers; when none is usable
  the last answer stands.
\<close>

fun first_usable :: "dict option list \<Rightarrow> dict option" where
  "first_usable [] = None"
| "first_usable (None # rs) = first_usable rs"
| "first_usable (Some config # rs) = (if usable config then Some config else first_usable rs)"

definition vault_tier :: "world \<Rightarrow> string \<Rightarrow> dict option" where
  "vault_tier w conn_id =
     (case get_connection w conn_id of
        Inl e \<Rightarrow> None
      | Inr conn \<Rightarrow>
          (if truthy (dict_get (extra_dejson conn) ''vault_conn_id'')
           then fst (get_config_from_connection w conn_id)
           else None))"

definition direct_tier :: "world \<Rightarrow> string \<Rightarrow> dict option" where
  "direct_tier w conn_id =
     (case get_connection w conn_id of
        Inl e \<Rightarrow> None
      | Inr conn \<Rightarrow> Some (direct_fields conn))"

definition env_tier :: "world \<Rightarrow> dict option" where
  "env_tier w = Some (fst (get_config_from_env w))"

definition first_usable_chain :: "world \<Rightarrow> string \<Rightarrow> dict" where
  "first_usable_chain w conn_id =
     (case first_usable [vault_tier w conn_id, direct_tier w conn_id, env_tier w] of
        Some config \<Rightarrow> config
      | None \<Rightarrow> fst (get_config_from_env w))"

text \<open>A host without connections, with the API URL in the environment.\<close>

definition env_world :: world where
  "env_world =
     example_world
       \<lparr>get_connection := (\<lambda>c. Inl (HostError ''connection not found'')),
        environ := (\<lambda>v. if v = ''R2INDEX_API_URL'' then Some ''https://env.test'' else None)\<rparr>"

section \<open>Properties of a batch\<close>

lemma resolved_append: "resolved (a @ b) = resolved a @ resolved b"
  by (induction a rule: resolved.induct) simp_all

lemma calls_append: "calls (a @ b) = calls a @ calls b"
  by (induction a rule: calls.induct) simp_all

lemma task_step_length: "length (tasks (task_step w ids transfer j st)) = length (tasks st)"
  by (simp add: task_step_def get_or_create_config_def split: task.splits prod.splits option.splits)

lemma task_step_rank:
  "i < length (tasks st) \<Longrightarrow>
   rank (tasks (task_step w ids transfer j st) ! i) =
     (if i = j then min 2 (Suc (rank (tasks st ! i))) else rank (tasks st ! i))"
  by (auto simp: task_step_def get_or_create_config_def split: task.splits prod.splits option.splits)

lemma batch_inv_init:
  "batch_inv w ids transfer xs \<lparr>conn_configs = Map.empty, tasks = map Pending xs, trace = []\<rparr>"
  by (simp add: batch_inv_def task_ok_def)

lemma batch_inv_step:
  assumes "batch_inv w ids transfer xs st"
  shows "batch_inv w ids transfer xs (task_step w ids transfer j st)"
proof (cases "j < length (tasks st)")
  case False
  then show ?thesis using assms by (simp add: task_step_def)
next
  case j: True
  from assms have len: "length (tasks st) = length xs" by (simp add: batch_inv_def)
  from assms j len have ok: "task_ok w ids transfer (xs ! j) (tasks st ! j)"
    by (simp add: batch_inv_def)
  show ?thesis
  proof (cases "tasks st ! j")
    case (Done r)
    then show ?thesis using assms j by (simp add: task_step_def)
  next
    case (Awaiting item b config)
    with j have st': "task_step w ids transfer j st =
      st\<lparr>tasks := (tasks st)[j := Done (transfer config b item)],
         trace := trace st @ [ClientCall j]\<rparr>"
      by (simp add: task_step_def)
    from ok Awaiting have r: "transfer config b item = run_one w ids transfer (xs ! j)"
      by (simp add: task_ok_def run_one_def split: prod.splits)
    from assms Awaiting j len have nj: "j \<notin> set (calls (trace st))"
      by (auto simp: batch_inv_def)
    show ?thesis unfolding st' using assms j len nj Awaiting r
      by (auto simp: batch_inv_def resolved_append calls_append nth_list_update task_ok_def)
  next
    case (Pending item)
    obtain c b where ids: "ids item = (c, b)" by (cases "ids item")
    from ok Pending have item: "item = xs ! j" by (simp add: task_ok_def)
    show ?thesis
    proof (cases "conn_configs st c")
      case (Some config)
      with j Pending ids have st': "task_step w ids transfer j st =
        st\<lparr>tasks := (tasks st)[j := Awaiting item b config]\<rparr>"
        by (simp add: task_step_def get_or_create_config_def)
      from assms Some have cfg: "config = fst (get_client_config w c)"
        by (simp add: batch_inv_def)
      show ?thesis unfolding st' using assms j len Pending ids item cfg Some
        by (auto simp: batch_inv_def nth_list_update task_ok_def)
    next
      case None
      obtain config ev where g: "get_client_config w c = (config, ev)"
        by (cases "get_client_config w c")
      with None j Pending ids have st': "task_step w ids transfer j st =
        st\<lparr>conn_configs := (conn_configs st)(c \<mapsto> config),
           trace := trace st @ [GetClientConfig c ev],
           tasks := (tasks st)[j := Awaiting item b config]\<rparr>"
        by (simp add: task_step_def get_or_create_config_def)
      from assms None have nc: "c \<notin> set (resolved (trace st))"
        by (auto simp: batch_inv_def)
      from j len item ids have cin: "c \<in> (\<lambda>x. fst (ids x)) ` set xs"
        by (metis fst_conv image_eqI nth_mem)
      show ?thesis unfolding st' using assms j len Pending ids item g None nc cin
        by (auto simp: batch_inv_def resolved_append calls_append nth_list_update task_ok_def)
    qed
  qed
qed

lemma fold_task_step_inv:
  "batch_inv w ids transfer xs st \<Longrightarrow>
   batch_inv w ids transfer xs (fold (task_step w ids transfer) s st)"
  by (induction s arbitrary: st) (simp_all add: batch_inv_step)

lemma fold_task_step_length:
  "length (tasks (fold (task_step w ids transfer) s st)) = length (tasks st)"
  by (induction s arbitrary: st) (simp_all add: task_step_length)

lemma fold_task_step_rank:
  "i < length (tasks st) \<Longrightarrow>
   rank (tasks (fold (task_step w ids transfer) s st) ! i)
     = min 2 (rank (tasks st ! i) + count_list s i)"
proof (induction s arbitrary: st)
  case Nil
  then show ?case by (cases "tasks st ! i") simp_all
next
  case (Cons j s)
  from Cons.prems have "i < length (tasks (task_step w ids transfer j st))"
    by (simp add: task_step_length)
  from Cons.IH [OF this] show ?case using Cons.prems
    by (auto simp: task_step_rank)
qed

lemma count_list_upt: "count_list [0..<n] i = (if i < n then 1 else 0)"
  by (induction n) auto

lemma collect_map_Done: "collect (map Done rs) = Some rs"
  by (induction rs) simp_all

lemma rank_2_Done: "rank t = 2 \<Longrightarrow> \<exists>r. t = Done r"
  by (cases t) simp_all

lemma gather_final:
  "gather w ids transfer xs sched =
     (collect (tasks (final_batch w ids transfer xs sched)),
      trace (final_batch w ids transfer xs sched))"
  by (simp add: gather_def final_batch_def Let_def)

lemma final_batch_inv: "batch_inv w ids transfer xs (final_batch w ids transfer xs sched)"
  unfolding final_batch_def by (rule fold_task_step_inv) (rule batch_inv_init)

lemma final_batch_rank:
  assumes "i < length xs"
  shows "rank (tasks (final_batch w ids transfer xs sched) ! i) = 2"
proof -
  have "rank (tasks (final_batch w ids transfer xs sched) ! i)
          = min 2 (0 + count_list (sched @ [0..<length xs] @ [0..<length xs]) i)"
    unfolding final_batch_def using assms
    by (subst fold_task_step_rank) simp_all
  then show ?thesis using assms by (simp add: count_list_upt)
qed

lemma final_batch_tasks:
  "tasks (final_batch w ids transfer xs sched) = map Done (map (run_one w ids transfer) xs)"
proof (rule nth_equalityI)
  show "length (tasks (final_batch w ids transfer xs sched))
          = length (map Done (map (run_one w ids transfer) xs))"
    using final_batch_inv [of w ids transfer xs sched] by (simp add: batch_inv_def)
next
  fix i assume "i < length (tasks (final_batch w ids transfer xs sched))"
  then have i: "i < length xs"
    using final_batch_inv [of w ids transfer xs sched] by (simp add: batch_inv_def)
  from final_batch_rank [OF i] obtain r where
    r: "tasks (final_batch w ids transfer xs sched) ! i = Done r"
    using rank_2_Done by blast
  from final_batch_inv [of w ids transfer xs sched] i
  have "task_ok w ids transfer (xs ! i) (tasks (final_batch w ids transfer xs sched) ! i)"
    by (simp add: batch_inv_def)
  with r have "r = run_one w ids transfer (xs ! i)" by (simp add: task_ok_def)
  with r i show "tasks (final_batch w ids transfer xs sched) ! i
                   = map Done (map (run_one w ids transfer) xs) ! i"
    by simp
qed

lemma gather_results:
  "fst (gather w ids transfer xs sched) = Some (map (run_one w ids transfer) xs)"
  by (simp only: gather_final final_batch_tasks collect_map_Done fst_conv)

lemma gather_resolved:
  "distinct (resolved (snd (gather w ids transfer xs sched)))"
  "set (resolved (snd (gather w ids transfer xs sched))) = (\<lambda>x. fst (ids x)) ` set xs"
  "GetClientConfig c ev \<in> set (snd (gather w ids transfer xs sched))
     \<Longrightarrow> ev = snd (get_client_config w c)"
proof -
  let ?st = "final_batch w ids transfer xs sched"
  note inv = final_batch_inv [of w ids transfer xs sched]
  show "distinct (resolved (snd (gather w ids transfer xs sched)))"
    using inv by (simp add: gather_final batch_inv_def)
  have sub: "dom (conn_configs ?st) \<subseteq> (\<lambda>x. fst (ids x)) ` set xs"
    using inv by (simp add: batch_inv_def)
  have sup: "(\<lambda>x. fst (ids x)) ` set xs \<subseteq> dom (conn_configs ?st)"
  proof
    fix c assume "c \<in> (\<lambda>x. fst (ids x)) ` set xs"
    then obtain i where i: "i < length xs" and c: "c = fst (ids (xs ! i))"
      by (auto simp: in_set_conv_nth)
    from final_batch_rank [OF i, of w ids transfer sched]
    have "0 < rank (tasks ?st ! i)" by simp
    with inv i c show "c \<in> dom (conn_configs ?st)" by (simp add: batch_inv_def)
  qed
  from inv have "set (resolved (trace ?st)) = dom (conn_configs ?st)"
    by (simp add: batch_inv_def)
  with sub sup show "set (resolved (snd (gather w ids transfer xs sched)))
                       = (\<lambda>x. fst (ids x)) ` set xs"
    by (simp add: gather_final)
  show "GetClientConfig c ev \<in> set (snd (gather w ids transfer xs sched))
          \<Longrightarrow> ev = snd (get_client_config w c)"
    using inv by (simp add: gather_final batch_inv_def)
qed

lemma gather_calls:
  "distinct (calls (snd (gather w ids transfer xs sched)))"
  "set (calls (snd (gather w ids transfer xs sched))) = {0..<length xs}"
proof -
  note inv = final_batch_inv [of w ids transfer xs sched]
  show "distinct (calls (snd (gather w ids transfer xs sched)))"
    using inv by (simp add: gather_final batch_inv_def)
  from inv have "set (calls (trace (final_batch w ids transfer xs sched)))
      = {i. i < length xs \<and> rank (tasks (final_batch w ids transfer xs sched) ! i) = 2}"
    by (simp add: batch_inv_def)
  also have "\<dots> = {0..<length xs}"
    using final_batch_rank [of _ xs w ids transfer sched] by auto
  finally show "set (calls (snd (gather w ids transfer xs sched))) = {0..<length xs}"
    by (simp add: gather_final)
qed

subsection \<open>The two operators\<close>

lemma run_one_upload:
  "run_one w (upload_ids self) (upload_transfer w self) = upload_one w self"
  by (rule ext)
     (simp add: run_one_def upload_one_def upload_outcome_def upload_transfer_def
           split: prod.splits)

lemma run_one_download:
  "run_one w (download_ids self) (download_transfer w self) = download_one w self"
  by (rule ext)
     (simp add: run_one_def download_one_def download_outcome_def download_transfer_def
           split: prod.splits)

lemma upload_all_results:
  "fst (upload_all w self sched) = Some (map (upload_one w self) (R2IndexUploadOperator.items self))"
  by (simp only: upload_all_def gather_results run_one_upload)

lemma download_all_results:
  "fst (download_all w self sched)
     = Some (map (download_one w self) (R2IndexDownloadOperator.items self))"
  by (simp only: download_all_def gather_results run_one_download)

lemma upload_one_failed:
  "(dict_get (upload_one w self item) ''status'' = PStr ''error'') = isl (upload_outcome w self item)"
  by (simp add: upload_one_def dict_get_def split: sum.splits)

lemma download_one_failed:
  "(dict_get (download_one w self item) ''status'' = PStr ''error'')
     = isl (download_outcome w self item)"
  by (simp add: download_one_def dict_get_def split: sum.splits prod.splits)

lemma comprehension_total:
  "(\<And>x. x \<in> set xs \<Longrightarrow> f x = Inr (g x)) \<Longrightarrow> comprehension f xs = Inr (map g xs)"
  by (induction xs) simp_all

lemma upload_execute_fst:
  "fst (upload_execute w self sched) =
     Some (let results = map (upload_one w self) (R2IndexUploadOperator.items self);
               errors = filter (\<lambda>r. dict_get r ''status'' = PStr ''error'') results
           in if errors \<noteq> [] then
                Inl (AirflowException
                  (string_of_nat (length errors) @ ''/'' @ string_of_nat (length results)
                     @ '' uploads failed''))
              else comprehension (\<lambda>r. dict_item r ''file_record'') results)"
proof -
  obtain rs tr where a: "upload_all w self sched = (rs, tr)" by (cases "upload_all w self sched")
  with upload_all_results [of w self sched]
  have "rs = Some (map (upload_one w self) (R2IndexUploadOperator.items self))" by simp
  with a show ?thesis by (simp add: upload_execute_def Let_def)
qed

lemma download_execute_fst:
  "fst (download_execute w self sched) =
     Some (let results = map (download_one w self) (R2IndexDownloadOperator.items self);
               errors = filter (\<lambda>r. dict_get r ''status'' = PStr ''error'') results
           in if errors \<noteq> [] then
                Inl (AirflowException
                  (string_of_nat (length errors) @ ''/'' @ string_of_nat (length results)
                     @ '' downloads failed''))
              else comprehension
                (\<lambda>r. case dict_item r ''path'' of
                        Inl e \<Rightarrow> Inl e
                      | Inr p \<Rightarrow>
                          (case dict_item r ''file_record'' of
                             Inl e \<Rightarrow> Inl e
                           | Inr fr \<Rightarrow> Inr (PDict [(''path'', p), (''file_record'', fr)])))
                results)"
proof -
  obtain rs tr where a: "download_all w self sched = (rs, tr)"
    by (cases "download_all w self sched")
  with download_all_results [of w self sched]
  have "rs = Some (map (download_one w self) (R2IndexDownloadOperator.items self))" by simp
  with a show ?thesis by (simp add: download_execute_def Let_def)
qed

lemma upload_errors:
  "filter (\<lambda>r. dict_get r ''status'' = PStr ''error'') (map (upload_one w self) xs)
     = map (upload_one w self) (filter (\<lambda>item. isl (upload_outcome w self item)) xs)"
  by (simp add: filter_map comp_def upload_one_failed)

lemma download_errors:
  "filter (\<lambda>r. dict_get r ''status'' = PStr ''error'') (map (download_one w self) xs)
     = map (download_one w self) (filter (\<lambda>item. isl (download_outcome w self item)) xs)"
  by (simp add: filter_map comp_def download_one_failed)

lemma upload_records:
  assumes "\<And>item. item \<in> set xs \<Longrightarrow> \<not> isl (upload_outcome w self item)"
  shows "comprehension (\<lambda>r. dict_item r ''file_record'') (map (upload_one w self) xs)
           = Inr (map (\<lambda>item. dict_get (upload_one w self item) ''file_record'') xs)"
proof -
  have "comprehension (\<lambda>r. dict_item r ''file_record'') (map (upload_one w self) xs)
          = Inr (map (\<lambda>r. dict_get r ''file_record'') (map (upload_one w self) xs))"
  proof (rule comprehension_total)
    fix r assume "r \<in> set (map (upload_one w self) xs)"
    then obtain item where "item \<in> set xs" "r = upload_one w self item" by auto
    with assms [of item] show "dict_item r ''file_record'' = Inr (dict_get r ''file_record'')"
      by (simp add: upload_one_def dict_item_def dict_get_def split: sum.splits)
  qed
  then show ?thesis by (simp add: comp_def)
qed

lemma download_records:
  assumes "\<And>item. item \<in> set xs \<Longrightarrow> \<not> isl (download_outcome w self item)"
  shows "comprehension
           (\<lambda>r. case dict_item r ''path'' of
                   Inl e \<Rightarrow> Inl e
                 | Inr p \<Rightarrow>
                     (case dict_item r ''file_record'' of
                        Inl e \<Rightarrow> Inl e
                      | Inr fr \<Rightarrow> Inr (PDict [(''path'', p), (''file_record'', fr)])))
           (map (download_one w self) xs)
         = Inr (map (\<lambda>item. PDict [(''path'', dict_get (download_one w self item) ''path''),
                                   (''file_record'',
                                    dict_get (download_one w self item) ''file_record'')]) xs)"
proof -
  let ?f = "\<lambda>r. case dict_item r ''path'' of
                   Inl e \<Rightarrow> Inl e
                 | Inr p \<Rightarrow>
                     (case dict_item r ''file_record'' of
                        Inl e \<Rightarrow> Inl e
                      | Inr fr \<Rightarrow> Inr (PDict [(''path'', p), (''file_record'', fr)]))"
  let ?g = "\<lambda>r. PDict [(''path'', dict_get r ''path''),
                       (''file_record'', dict_get r ''file_record'')]"
  have "comprehension ?f (map (download_one w self) xs)
          = Inr (map ?g (map (download_one w self) xs))"
  proof (rule comprehension_total)
    fix r assume "r \<in> set (map (download_one w self) xs)"
    then obtain item where "item \<in> set xs" "r = download_one w self item" by auto
    with assms [of item] show "?f r = Inr (?g r)"
      by (simp add: download_one_def dict_item_def dict_get_def split: sum.splits prod.splits)
  qed
  then show ?thesis by (simp add: comp_def)
qed

section \<open>Secret references\<close>

lemma rsplit_once_split:
  assumes "sep \<in> set s"
  shows "\<exists>path key. rsplit_once sep s = [path, key] \<and> s = path @ sep # key \<and> sep \<notin> set key"
proof -
  let ?P = "\<lambda>c. c \<noteq> sep"
  let ?k = "takeWhile ?P (rev s)"
  let ?d = "dropWhile ?P (rev s)"
  from assms have "sep \<in> set (rev s)" by simp
  then have dne: "?d \<noteq> []" by (auto simp: dropWhile_eq_Nil_conv)
  then have hd: "hd ?d = sep" using hd_dropWhile [of ?P "rev s"] by auto
  from dne hd have d: "?d = sep # tl ?d" by (cases ?d) auto
  have "rev s = ?k @ ?d" by simp
  then have "rev s = ?k @ sep # tl ?d" using d by simp
  then have "rev (rev s) = rev (?k @ sep # tl ?d)" by (rule arg_cong)
  then have s: "s = rev (tl ?d) @ sep # rev ?k" by simp
  have nk: "sep \<notin> set (rev ?k)" by (auto dest: set_takeWhileD)
  show ?thesis using assms s nk unfolding rsplit_once_def by auto
qed

text \<open>
  Claim C9. Parsing a secret reference always succeeds. When the reference contains a
  \<open>#\<close>, it is the path, then a \<open>#\<close>, then the key, and the key contains no \<open>#\<close>: the
  split is at the last one. When it contains none, the path is the whole reference and the
  key is the configuration key being resolved. The two references of the specification
  parse as it says.
\<close>

theorem parse_secret_ref_last_hash:
  "(\<exists>path key. parse_secret_ref secret_ref default_key = Inr (path, key) \<and>
      (if CHR ''#'' \<in> set secret_ref
       then secret_ref = path @ CHR ''#'' # key \<and> CHR ''#'' \<notin> set key
       else path = secret_ref \<and> key = default_key))
   \<and> parse_secret_ref ''cloudflare/r2index#api-url'' ''r2index_api_url''
        = Inr (''cloudflare/r2index'', ''api-url'')
   \<and> parse_secret_ref ''cloudflare/r2index'' ''r2index_api_url''
        = Inr (''cloudflare/r2index'', ''r2index_api_url'')"
proof (intro conjI)
  show "\<exists>path key. parse_secret_ref secret_ref default_key = Inr (path, key) \<and>
      (if CHR ''#'' \<in> set secret_ref
       then secret_ref = path @ CHR ''#'' # key \<and> CHR ''#'' \<notin> set key
       else path = secret_ref \<and> key = default_key)"
  proof (cases "CHR ''#'' \<in> set secret_ref")
    case True
    from rsplit_once_split [OF True] obtain path key where
      "rsplit_once CHR ''#'' secret_ref = [path, key]"
      "secret_ref = path @ CHR ''#'' # key" "CHR ''#'' \<notin> set key" by blast
    then show ?thesis using True by (simp add: parse_secret_ref_def)
  next
    case False
    then show ?thesis by (simp add: parse_secret_ref_def)
  qed
  show "parse_secret_ref ''cloudflare/r2index#api-url'' ''r2index_api_url''
        = Inr (''cloudflare/r2index'', ''api-url'')"
    by (simp add: parse_secret_ref_def rsplit_once_def)
  show "parse_secret_ref ''cloudflare/r2index'' ''r2index_api_url''
        = Inr (''cloudflare/r2index'', ''r2index_api_url'')"
    by (simp add: parse_secret_ref_def rsplit_once_def)
qed

text \<open>A reference with two \<open>#\<close>: the first one stays in the path.\<close>

theorem parse_secret_ref_last_hash_witness:
  "\<exists>path key. parse_secret_ref ''a#b#c'' ''k'' = Inr (path, key)
     \<and> ''a#b#c'' = path @ CHR ''#'' # key \<and> CHR ''#'' \<notin> set key"
  using parse_secret_ref_last_hash [of "''a#b#c''" "''k''"] by simp

lemmas example_defs =
  example_world_def example_upload_item_def example_download_item_def example_upload_def
  example_download_def upload_init_def download_init_def normalise_items_def

lemma trace_empty: "resolved tr = [] \<Longrightarrow> calls tr = [] \<Longrightarrow> tr = []"
  by (cases tr rule: resolved.cases) simp_all

lemma gather_no_items: "gather w ids transfer [] sched = (Some [], [])"
proof -
  have "fst (gather w ids transfer [] sched) = Some []" by (simp add: gather_results)
  moreover have "snd (gather w ids transfer [] sched) = []"
    using gather_resolved(2) [of w ids transfer "[]" sched]
          gather_calls(2) [of w ids transfer "[]" sched]
    by (intro trace_empty) simp_all
  ultimately show ?thesis by (simp add: prod_eq_iff)
qed

lemma upload_execute_snd: "snd (upload_execute w self sched) = snd (upload_all w self sched)"
  by (simp add: upload_execute_def Let_def split: prod.splits option.splits)

lemma download_execute_snd:
  "snd (download_execute w self sched) = snd (download_all w self sched)"
  by (simp add: download_execute_def Let_def split: prod.splits option.splits)

lemma upload_execute_result:
  "fst (upload_execute w self sched) =
     (let failed = filter (\<lambda>item. isl (upload_outcome w self item))
                     (R2IndexUploadOperator.items self)
      in if failed \<noteq> [] then
           Some (Inl (AirflowException
             (string_of_nat (length failed) @ ''/''
                @ string_of_nat (length (R2IndexUploadOperator.items self))
                @ '' uploads failed'')))
         else Some (Inr (map (\<lambda>item. projr (upload_outcome w self item))
                           (R2IndexUploadOperator.items self))))"
proof (cases "filter (\<lambda>item. isl (upload_outcome w self item))
                (R2IndexUploadOperator.items self) = []")
  case False
  then show ?thesis
    by (simp add: upload_execute_fst upload_errors Let_def del: string_of_nat.simps)
next
  case True
  then have ok: "\<And>item. item \<in> set (R2IndexUploadOperator.items self)
                   \<Longrightarrow> \<not> isl (upload_outcome w self item)"
    by (simp add: filter_empty_conv)
  have "map (\<lambda>item. dict_get (upload_one w self item) ''file_record'')
            (R2IndexUploadOperator.items self)
        = map (\<lambda>item. projr (upload_outcome w self item)) (R2IndexUploadOperator.items self)"
  proof (rule map_cong [OF refl])
    fix item assume "item \<in> set (R2IndexUploadOperator.items self)"
    from ok [OF this] show "dict_get (upload_one w self item) ''file_record''
                              = projr (upload_outcome w self item)"
      by (cases "upload_outcome w self item") (simp_all add: upload_one_def dict_get_def)
  qed
  with True upload_records [OF ok] show ?thesis
    by (simp add: upload_execute_fst upload_errors Let_def del: string_of_nat.simps)
qed

lemma download_execute_result:
  "fst (download_execute w self sched) =
     (let failed = filter (\<lambda>item. isl (download_outcome w self item))
                     (R2IndexDownloadOperator.items self)
      in if failed \<noteq> [] then
           Some (Inl (AirflowException
             (string_of_nat (length failed) @ ''/''
                @ string_of_nat (length (R2IndexDownloadOperator.items self))
                @ '' downloads failed'')))
         else Some (Inr (map (\<lambda>item. case projr (download_outcome w self item) of
                                       (p, fr) \<Rightarrow>
                                         PDict [(''path'', PStr p),
                                                (''file_record'',
                                                 (case fr of None \<Rightarrow> PNone | Some r \<Rightarrow> r))])
                           (R2IndexDownloadOperator.items self))))"
proof (cases "filter (\<lambda>item. isl (download_outcome w self item))
                (R2IndexDownloadOperator.items self) = []")
  case False
  then show ?thesis
    by (simp add: download_execute_fst download_errors Let_def del: string_of_nat.simps)
next
  case True
  then have ok: "\<And>item. item \<in> set (R2IndexDownloadOperator.items self)
                   \<Longrightarrow> \<not> isl (download_outcome w self item)"
    by (simp add: filter_empty_conv)
  have "map (\<lambda>item. PDict [(''path'', dict_get (download_one w self item) ''path''),
                           (''file_record'',
                            dict_get (download_one w self item) ''file_record'')])
            (R2IndexDownloadOperator.items self)
        = map (\<lambda>item. case projr (download_outcome w self item) of
                        (p, fr) \<Rightarrow>
                          PDict [(''path'', PStr p),
                                 (''file_record'',
                                  (case fr of None \<Rightarrow> PNone | Some r \<Rightarrow> r))])
            (R2IndexDownloadOperator.items self)"
  proof (rule map_cong [OF refl])
    fix item assume "item \<in> set (R2IndexDownloadOperator.items self)"
    from ok [OF this]
    show "PDict [(''path'', dict_get (download_one w self item) ''path''),
                 (''file_record'', dict_get (download_one w self item) ''file_record'')]
          = (case projr (download_outcome w self item) of
               (p, fr) \<Rightarrow>
                 PDict [(''path'', PStr p),
                        (''file_record'', (case fr of None \<Rightarrow> PNone | Some r \<Rightarrow> r))])"
      by (cases "download_outcome w self item")
         (simp_all add: download_one_def dict_get_def split: prod.splits)
  qed
  with True download_records [OF ok] show ?thesis
    by (simp add: download_execute_fst download_errors Let_def del: string_of_nat.simps)
qed

section \<open>The claims on batches\<close>

text \<open>
  Claim C1. Whatever the order in which the item tasks take their turns, gathering an
  upload or a download batch returns, and the result list has the length of the item list
  with, at every position, the result of that position's item run on its own. With no
  item, \<open>execute\<close> returns the empty list, raises nothing, resolves no connection and
  calls no client.
\<close>

theorem batch_results_follow_items:
  "(\<exists>rs. fst (upload_all w up sched) = Some rs
        \<and> length rs = length (R2IndexUploadOperator.items up)
        \<and> (\<forall>i<length (R2IndexUploadOperator.items up).
              rs ! i = upload_one w up (R2IndexUploadOperator.items up ! i)))
   \<and> (\<exists>rs. fst (download_all w down sched) = Some rs
        \<and> length rs = length (R2IndexDownloadOperator.items down)
        \<and> (\<forall>i<length (R2IndexDownloadOperator.items down).
              rs ! i = download_one w down (R2IndexDownloadOperator.items down ! i)))
   \<and> (R2IndexUploadOperator.items up = []
        \<longrightarrow> upload_execute w up sched = (Some (Inr []), []))
   \<and> (R2IndexDownloadOperator.items down = []
        \<longrightarrow> download_execute w down sched = (Some (Inr []), []))"
proof (intro conjI impI)
  show "\<exists>rs. fst (upload_all w up sched) = Some rs
        \<and> length rs = length (R2IndexUploadOperator.items up)
        \<and> (\<forall>i<length (R2IndexUploadOperator.items up).
              rs ! i = upload_one w up (R2IndexUploadOperator.items up ! i))"
    by (simp add: upload_all_results)
  show "\<exists>rs. fst (download_all w down sched) = Some rs
        \<and> length rs = length (R2IndexDownloadOperator.items down)
        \<and> (\<forall>i<length (R2IndexDownloadOperator.items down).
              rs ! i = download_one w down (R2IndexDownloadOperator.items down ! i))"
    by (simp add: download_all_results)
next
  assume "R2IndexUploadOperator.items up = []"
  then show "upload_execute w up sched = (Some (Inr []), [])"
    by (simp add: upload_execute_def upload_all_def gather_no_items)
next
  assume "R2IndexDownloadOperator.items down = []"
  then show "download_execute w down sched = (Some (Inr []), [])"
    by (simp add: download_execute_def download_all_def gather_no_items)
qed

text \<open>
  Two uploads of which the second takes all its turns first and the first fails: the
  failure is at position 0 and the record at position 1. And a batch of no item.
\<close>

theorem batch_results_follow_items_witness:
  "(\<exists>rs. fst (upload_all example_world
             (example_upload [example_upload_item ''/tmp/missing.csv'',
                              example_upload_item ''/tmp/a.csv'']) [1, 1, 0, 0]) = Some rs
        \<and> length rs = 2
        \<and> rs ! 0 = [(''status'', PStr ''error''), (''message'', PStr ''file not found''),
                    (''source'', PStr ''/tmp/missing.csv'')]
        \<and> rs ! 1 = [(''status'', PStr ''success''),
                    (''file_record'', PDict [(''id'', PStr ''/tmp/a.csv'')])])
   \<and> upload_execute example_world (example_upload []) [0] = (Some (Inr []), [])
   \<and> download_execute example_world (example_download []) [0] = (Some (Inr []), [])"
  using batch_results_follow_items
          [of example_world
              "example_upload [example_upload_item ''/tmp/missing.csv'',
                               example_upload_item ''/tmp/a.csv'']"
              "[1, 1, 0, 0]" "example_download []"]
        batch_results_follow_items
          [of example_world "example_upload []" "[0]" "example_download []"]
  by (auto simp: example_defs upload_one_def upload_outcome_def upload_ids_def)

text \<open>
  Claim C2. Once every item task has completed, \<open>execute\<close> raises exactly when the client
  raised for at least one item, and the message of the AirflowException gives the number
  of such items over the number of items; otherwise it raises nothing and returns what
  the client returned for each item, in item order (the file records of an upload, the
  path and file record of a download).
\<close>

theorem batch_failure_iff_item_failure:
  "fst (upload_execute w up sched) =
     (if \<exists>item \<in> set (R2IndexUploadOperator.items up). isl (upload_outcome w up item)
      then Some (Inl (AirflowException
             (string_of_nat (length (filter (\<lambda>item. isl (upload_outcome w up item))
                                       (R2IndexUploadOperator.items up)))
                @ ''/'' @ string_of_nat (length (R2IndexUploadOperator.items up))
                @ '' uploads failed'')))
      else Some (Inr (map (\<lambda>item. projr (upload_outcome w up item))
                        (R2IndexUploadOperator.items up))))
   \<and> fst (download_execute w down sched) =
     (if \<exists>item \<in> set (R2IndexDownloadOperator.items down). isl (download_outcome w down item)
      then Some (Inl (AirflowException
             (string_of_nat (length (filter (\<lambda>item. isl (download_outcome w down item))
                                       (R2IndexDownloadOperator.items down)))
                @ ''/'' @ string_of_nat (length (R2IndexDownloadOperator.items down))
                @ '' downloads failed'')))
      else Some (Inr (map (\<lambda>item. case projr (download_outcome w down item) of
                                    (p, fr) \<Rightarrow>
                                      PDict [(''path'', PStr p),
                                             (''file_record'',
                                              (case fr of None \<Rightarrow> PNone | Some r \<Rightarrow> r))])
                        (R2IndexDownloadOperator.items down))))"
  by (simp add: upload_execute_result download_execute_result Let_def filter_empty_conv
           del: string_of_nat.simps)

text \<open>
  One failing upload out of two gives the count 1/2; two downloads that succeed are
  returned in order.
\<close>

theorem batch_failure_iff_item_failure_witness:
  "fst (upload_execute example_world
          (example_upload [example_upload_item ''/tmp/a.csv'',
                           example_upload_item ''/tmp/missing.csv'']) [])
     = Some (Inl (AirflowException ''1/2 uploads failed''))
   \<and> fst (download_execute example_world
          (example_download [example_download_item ''acme/a'',
                             example_download_item ''acme/b'']) [])
     = Some (Inr [PDict [(''path'', PStr ''/tmp/out.csv''),
                         (''file_record'', PDict [(''id'', PStr ''acme/a'')])],
                  PDict [(''path'', PStr ''/tmp/out.csv''),
                         (''file_record'', PDict [(''id'', PStr ''acme/b'')])]])"
  using batch_failure_iff_item_failure
          [of example_world
              "example_upload [example_upload_item ''/tmp/a.csv'',
                               example_upload_item ''/tmp/missing.csv'']"
              "[]"
              "example_download [example_download_item ''acme/a'',
                                 example_download_item ''acme/b'']"]
  by (simp add: example_defs upload_outcome_def upload_ids_def download_outcome_def
        download_ids_def)

text \<open>
  Claim C3. In a gathered batch every item has its own result: when the client raised for
  it, the error record with the exception's message and the item's \<open>source\<close> (upload) or
  \<open>source_path\<close> (download); otherwise its success record. Whatever the other items did,
  the client is called exactly once for each position.
\<close>

theorem item_failure_is_isolated:
  "(\<exists>rs. fst (upload_all w up sched) = Some rs
        \<and> length rs = length (R2IndexUploadOperator.items up)
        \<and> (\<forall>i<length (R2IndexUploadOperator.items up).
              rs ! i =
                (case upload_outcome w up (R2IndexUploadOperator.items up ! i) of
                   Inl msg \<Rightarrow>
                     [(''status'', PStr ''error''), (''message'', PStr msg),
                      (''source'', PStr (source (R2IndexUploadOperator.items up ! i)))]
                 | Inr file_record \<Rightarrow>
                     [(''status'', PStr ''success''), (''file_record'', file_record)])))
   \<and> distinct (calls (snd (upload_all w up sched)))
   \<and> set (calls (snd (upload_all w up sched))) = {0..<length (R2IndexUploadOperator.items up)}
   \<and> (\<exists>rs. fst (download_all w down sched) = Some rs
        \<and> length rs = length (R2IndexDownloadOperator.items down)
        \<and> (\<forall>i<length (R2IndexDownloadOperator.items down).
              rs ! i =
                (case download_outcome w down (R2IndexDownloadOperator.items down ! i) of
                   Inl msg \<Rightarrow>
                     [(''status'', PStr ''error''), (''message'', PStr msg),
                      (''source_path'',
                       PStr (source_path (R2IndexDownloadOperator.items down ! i)))]
                 | Inr (downloaded_path, file_record) \<Rightarrow>
                     [(''status'', PStr ''success''), (''path'', PStr downloaded_path),
                      (''file_record'',
                       (case file_record of None \<Rightarrow> PNone | Some fr \<Rightarrow> fr))])))
   \<and> distinct (calls (snd (download_all w down sched)))
   \<and> set (calls (snd (download_all w down sched)))
       = {0..<length (R2IndexDownloadOperator.items down)}"
proof (intro conjI)
  show "\<exists>rs. fst (upload_all w up sched) = Some rs
        \<and> length rs = length (R2IndexUploadOperator.items up)
        \<and> (\<forall>i<length (R2IndexUploadOperator.items up).
              rs ! i =
                (case upload_outcome w up (R2IndexUploadOperator.items up ! i) of
                   Inl msg \<Rightarrow>
                     [(''status'', PStr ''error''), (''message'', PStr msg),
                      (''source'', PStr (source (R2IndexUploadOperator.items up ! i)))]
                 | Inr file_record \<Rightarrow>
                     [(''status'', PStr ''success''), (''file_record'', file_record)]))"
    by (simp add: upload_all_results upload_one_def)
  show "\<exists>rs. fst (download_all w down sched) = Some rs
        \<and> length rs = length (R2IndexDownloadOperator.items down)
        \<and> (\<forall>i<length (R2IndexDownloadOperator.items down).
              rs ! i =
                (case download_outcome w down (R2IndexDownloadOperator.items down ! i) of
                   Inl msg \<Rightarrow>
                     [(''status'', PStr ''error''), (''message'', PStr msg),
                      (''source_path'',
                       PStr (source_path (R2IndexDownloadOperator.items down ! i)))]
                 | Inr (downloaded_path, file_record) \<Rightarrow>
                     [(''status'', PStr ''success''), (''path'', PStr downloaded_path),
                      (''file_record'',
                       (case file_record of None \<Rightarrow> PNone | Some fr \<Rightarrow> fr))]))"
    by (simp add: download_all_results download_one_def)
  show "distinct (calls (snd (upload_all w up sched)))"
    unfolding upload_all_def by (rule gather_calls)
  show "set (calls (snd (upload_all w up sched))) = {0..<length (R2IndexUploadOperator.items up)}"
    unfolding upload_all_def by (rule gather_calls)
  show "distinct (calls (snd (download_all w down sched)))"
    unfolding download_all_def by (rule gather_calls)
  show "set (calls (snd (download_all w down sched)))
          = {0..<length (R2IndexDownloadOperator.items down)}"
    unfolding download_all_def by (rule gather_calls)
qed

text \<open>
  A download that fails between two that succeed: the error record names its
  \<open>source_path\<close>, and the one after it is still there.
\<close>

theorem item_failure_is_isolated_witness:
  "\<exists>rs. fst (download_all example_world
            (example_download [example_download_item ''acme/a'',
                               example_download_item ''acme/missing'',
                               example_download_item ''acme/b'']) [2, 1, 0]) = Some rs
       \<and> length rs = 3
       \<and> rs ! 1 = [(''status'', PStr ''error''), (''message'', PStr ''object not found''),
                   (''source_path'', PStr ''acme/missing'')]
       \<and> rs ! 2 = [(''status'', PStr ''success''), (''path'', PStr ''/tmp/out.csv''),
                   (''file_record'', PDict [(''id'', PStr ''acme/b'')])]"
  using item_failure_is_isolated
          [of example_world "example_upload []" "[2, 1, 0]"
              "example_download [example_download_item ''acme/a'',
                                 example_download_item ''acme/missing'',
                                 example_download_item ''acme/b'']"]
  by (auto simp: example_defs download_outcome_def download_ids_def)

text \<open>
  Claim C6. In one execution, whatever the order in which the item tasks take their
  turns, no connection identifier is resolved twice; the identifiers resolved are exactly
  the effective identifiers of the items (the item's own when it is a non-empty string,
  else the operator's); and every item's result is computed under the configuration of
  that one resolution.
\<close>

theorem config_resolved_once_per_connection:
  "distinct (resolved (snd (upload_execute w up sched)))
   \<and> set (resolved (snd (upload_execute w up sched)))
       = (\<lambda>item. fst (upload_ids up item)) ` set (R2IndexUploadOperator.items up)
   \<and> fst (upload_all w up sched)
       = Some (map (\<lambda>item. upload_transfer w up
                              (fst (get_client_config w (fst (upload_ids up item))))
                              (snd (upload_ids up item)) item)
                 (R2IndexUploadOperator.items up))
   \<and> distinct (resolved (snd (download_execute w down sched)))
   \<and> set (resolved (snd (download_execute w down sched)))
       = (\<lambda>item. fst (download_ids down item)) ` set (R2IndexDownloadOperator.items down)
   \<and> fst (download_all w down sched)
       = Some (map (\<lambda>item. download_transfer w down
                              (fst (get_client_config w (fst (download_ids down item))))
                              (snd (download_ids down item)) item)
                 (R2IndexDownloadOperator.items down))"
proof (intro conjI)
  show "distinct (resolved (snd (upload_execute w up sched)))"
    unfolding upload_execute_snd upload_all_def by (rule gather_resolved)
  show "set (resolved (snd (upload_execute w up sched)))
          = (\<lambda>item. fst (upload_ids up item)) ` set (R2IndexUploadOperator.items up)"
    unfolding upload_execute_snd upload_all_def by (rule gather_resolved)
  show "distinct (resolved (snd (download_execute w down sched)))"
    unfolding download_execute_snd download_all_def by (rule gather_resolved)
  show "set (resolved (snd (download_execute w down sched)))
          = (\<lambda>item. fst (download_ids down item)) ` set (R2IndexDownloadOperator.items down)"
    unfolding download_execute_snd download_all_def by (rule gather_resolved)
  show "fst (upload_all w up sched)
       = Some (map (\<lambda>item. upload_transfer w up
                              (fst (get_client_config w (fst (upload_ids up item))))
                              (snd (upload_ids up item)) item)
                 (R2IndexUploadOperator.items up))"
    by (simp add: upload_all_def gather_results run_one_def split_beta)
  show "fst (download_all w down sched)
       = Some (map (\<lambda>item. download_transfer w down
                              (fst (get_client_config w (fst (download_ids down item))))
                              (snd (download_ids down item)) item)
                 (R2IndexDownloadOperator.items down))"
    by (simp add: download_all_def gather_results run_one_def split_beta)
qed

text \<open>
  Three uploads, two on the operator's connection and one on its own, the last task
  running first: two resolutions, one for each connection.
\<close>

theorem config_resolved_once_per_connection_witness:
  "distinct (resolved (snd (upload_execute example_world
      (example_upload [example_upload_item ''/tmp/a.csv'',
                       (example_upload_item ''/tmp/b.csv'')
                         \<lparr>UploadItem.r2index_conn_id := Some ''other''\<rparr>,
                       example_upload_item ''/tmp/c.csv'']) [2, 0, 1])))
   \<and> set (resolved (snd (upload_execute example_world
      (example_upload [example_upload_item ''/tmp/a.csv'',
                       (example_upload_item ''/tmp/b.csv'')
                         \<lparr>UploadItem.r2index_conn_id := Some ''other''\<rparr>,
                       example_upload_item ''/tmp/c.csv'']) [2, 0, 1])))
       = {''r2index_default'', ''other''}"
  using config_resolved_once_per_connection
          [of example_world
              "example_upload [example_upload_item ''/tmp/a.csv'',
                               (example_upload_item ''/tmp/b.csv'')
                                 \<lparr>UploadItem.r2index_conn_id := Some ''other''\<rparr>,
                               example_upload_item ''/tmp/c.csv'']"
              "[2, 0, 1]" "example_download []"]
  by (auto simp: example_defs upload_ids_def str_or_def)

text \<open>
  Claim C10. A constructor given one item builds the operator it builds from the list of
  that one item: the \<open>items\<close> field is that singleton list, and \<open>execute\<close> returns or
  raises the same whatever the order of the turns.
\<close>

theorem single_item_is_singleton_list:
  "upload_init b (Single u) conn_id tc = upload_init b (Many [u]) conn_id tc
   \<and> R2IndexUploadOperator.items (upload_init b (Single u) conn_id tc) = [u]
   \<and> fst (upload_execute w (upload_init b (Single u) conn_id tc) sched)
       = fst (upload_execute w (upload_init b (Many [u]) conn_id tc) sched')
   \<and> download_init b (Single d) conn_id tc = download_init b (Many [d]) conn_id tc
   \<and> R2IndexDownloadOperator.items (download_init b (Single d) conn_id tc) = [d]
   \<and> fst (download_execute w (download_init b (Single d) conn_id tc) sched)
       = fst (download_execute w (download_init b (Many [d]) conn_id tc) sched')"
  by (simp add: upload_init_def download_init_def normalise_items_def
        upload_execute_result download_execute_result del: string_of_nat.simps)

text \<open>A single upload item: the one record comes back in a list.\<close>

theorem single_item_is_singleton_list_witness:
  "fst (upload_execute example_world
          (upload_init ''my-bucket'' (Single (example_upload_item ''/tmp/a.csv''))
             ''r2index_default'' None) [])
     = fst (upload_execute example_world
          (upload_init ''my-bucket'' (Many [example_upload_item ''/tmp/a.csv''])
             ''r2index_default'' None) [0, 0])"
  by (rule conjunct1 [OF conjunct2 [OF conjunct2 [OF single_item_is_singleton_list]]])

text \<open>
  Claim C7, as stated, fails: what \<open>execute\<close> returns for an upload is the list of the
  file records themselves, and a record has no \<open>status\<close> unless the client put one in;
  and when an item fails nothing is returned at all, successes included.
\<close>

theorem returned_value_has_no_status_counterexample:
  "fst (upload_execute example_world (example_upload [example_upload_item ''/tmp/a.csv'']) [])
     = Some (Inr [PDict [(''id'', PStr ''/tmp/a.csv'')]])
   \<and> \<not> list_all carries_status [PDict [(''id'', PStr ''/tmp/a.csv'')]]
   \<and> fst (upload_execute example_world
            (example_upload [example_upload_item ''/tmp/a.csv'',
                             example_upload_item ''/tmp/missing.csv'']) [])
     = Some (Inl (AirflowException ''1/2 uploads failed''))"
  by (simp add: upload_execute_result example_defs upload_outcome_def upload_ids_def
        carries_status_def dict_get_def)

text \<open>
  Claim C7, amended. When the client raises for no item, an upload returns, in item
  order, exactly the file records the client returned, and a download the dictionaries of
  the path and file record (\<open>None\<close> when the client gave no record); nothing else is
  added to them. When the client raises for some item, \<open>execute\<close> returns no value: it
  raises an AirflowException whose message is the number of items the client raised for,
  a slash, the number of items, and \<open>uploads failed\<close> or \<open>downloads failed\<close>; it
  carries nothing of the individual results.
\<close>

theorem execute_returns_records_or_raises:
  "((\<forall>item \<in> set (R2IndexUploadOperator.items up). upload_outcome w up item = Inr (f item))
      \<longrightarrow> fst (upload_execute w up sched) = Some (Inr (map f (R2IndexUploadOperator.items up))))
   \<and> ((\<exists>item \<in> set (R2IndexUploadOperator.items up). isl (upload_outcome w up item))
      \<longrightarrow> fst (upload_execute w up sched)
            = Some (Inl (AirflowException
                   (string_of_nat (length (filter (\<lambda>item. isl (upload_outcome w up item))
                                             (R2IndexUploadOperator.items up)))
                      @ ''/'' @ string_of_nat (length (R2IndexUploadOperator.items up))
                      @ '' uploads failed''))))
   \<and> ((\<forall>item \<in> set (R2IndexDownloadOperator.items down).
          download_outcome w down item = Inr (p item, g item))
      \<longrightarrow> fst (download_execute w down sched)
            = Some (Inr (map (\<lambda>item. PDict [(''path'', PStr (p item)),
                                            (''file_record'',
                                             (case g item of None \<Rightarrow> PNone
                                                           | Some r \<Rightarrow> r))])
                           (R2IndexDownloadOperator.items down))))
   \<and> ((\<exists>item \<in> set (R2IndexDownloadOperator.items down). isl (download_outcome w down item))
      \<longrightarrow> fst (download_execute w down sched)
            = Some (Inl (AirflowException
                   (string_of_nat (length (filter (\<lambda>item. isl (download_outcome w down item))
                                             (R2IndexDownloadOperator.items down)))
                      @ ''/'' @ string_of_nat (length (R2IndexDownloadOperator.items down))
                      @ '' downloads failed''))))"
proof (intro conjI impI)
  assume a: "\<forall>item \<in> set (R2IndexUploadOperator.items up). upload_outcome w up item = Inr (f item)"
  then have "filter (\<lambda>item. isl (upload_outcome w up item)) (R2IndexUploadOperator.items up) = []"
    by (simp add: filter_empty_conv)
  moreover from a have "map (\<lambda>item. projr (upload_outcome w up item))
                              (R2IndexUploadOperator.items up)
                          = map f (R2IndexUploadOperator.items up)"
    by simp
  ultimately show "fst (upload_execute w up sched)
                     = Some (Inr (map f (R2IndexUploadOperator.items up)))"
    by (simp add: upload_execute_result del: string_of_nat.simps)
next
  assume "\<exists>item \<in> set (R2IndexUploadOperator.items up). isl (upload_outcome w up item)"
  then have "filter (\<lambda>item. isl (upload_outcome w up item)) (R2IndexUploadOperator.items up)
               \<noteq> []"
    by (simp add: filter_empty_conv)
  then show "fst (upload_execute w up sched)
            = Some (Inl (AirflowException
                   (string_of_nat (length (filter (\<lambda>item. isl (upload_outcome w up item))
                                             (R2IndexUploadOperator.items up)))
                      @ ''/'' @ string_of_nat (length (R2IndexUploadOperator.items up))
                      @ '' uploads failed'')))"
    by (simp add: upload_execute_result Let_def del: string_of_nat.simps)
next
  assume a: "\<forall>item \<in> set (R2IndexDownloadOperator.items down).
               download_outcome w down item = Inr (p item, g item)"
  then have "filter (\<lambda>item. isl (download_outcome w down item))
               (R2IndexDownloadOperator.items down) = []"
    by (simp add: filter_empty_conv)
  moreover from a
  have "map (\<lambda>item. case projr (download_outcome w down item) of
                      (p, fr) \<Rightarrow>
                        PDict [(''path'', PStr p),
                               (''file_record'', (case fr of None \<Rightarrow> PNone | Some r \<Rightarrow> r))])
            (R2IndexDownloadOperator.items down)
        = map (\<lambda>item. PDict [(''path'', PStr (p item)),
                             (''file_record'',
                              (case g item of None \<Rightarrow> PNone | Some r \<Rightarrow> r))])
            (R2IndexDownloadOperator.items down)"
    by simp
  ultimately show "fst (download_execute w down sched)
            = Some (Inr (map (\<lambda>item. PDict [(''path'', PStr (p item)),
                                            (''file_record'',
                                             (case g item of None \<Rightarrow> PNone
                                                           | Some r \<Rightarrow> r))])
                           (R2IndexDownloadOperator.items down)))"
    by (simp add: download_execute_result del: string_of_nat.simps)
next
  assume "\<exists>item \<in> set (R2IndexDownloadOperator.items down). isl (download_outcome w down item)"
  then have "filter (\<lambda>item. isl (download_outcome w down item))
               (R2IndexDownloadOperator.items down) \<noteq> []"
    by (simp add: filter_empty_conv)
  then show "fst (download_execute w down sched)
            = Some (Inl (AirflowException
                   (string_of_nat (length (filter (\<lambda>item. isl (download_outcome w down item))
                                             (R2IndexDownloadOperator.items down)))
                      @ ''/'' @ string_of_nat (length (R2IndexDownloadOperator.items down))
                      @ '' downloads failed'')))"
    by (simp add: download_execute_result Let_def del: string_of_nat.simps)
qed

text \<open>
  Two uploads that succeed come back as their two records; with one upload that fails
  out of two, and two downloads out of three, the execution raises with those counts.
\<close>

theorem execute_returns_records_or_raises_witness:
  "fst (upload_execute example_world
          (example_upload [example_upload_item ''/tmp/a.csv'',
                           example_upload_item ''/tmp/b.csv'']) [1, 0])
     = Some (Inr [PDict [(''id'', PStr ''/tmp/a.csv'')], PDict [(''id'', PStr ''/tmp/b.csv'')]])
   \<and> fst (upload_execute example_world
            (example_upload [example_upload_item ''/tmp/a.csv'',
                             example_upload_item ''/tmp/missing.csv'']) [1, 0])
     = Some (Inl (AirflowException ''1/2 uploads failed''))
   \<and> fst (download_execute example_world
            (example_download [example_download_item ''acme/missing'',
                               example_download_item ''acme/a'',
                               example_download_item ''acme/missing'']) [2, 0])
     = Some (Inl (AirflowException ''2/3 downloads failed''))"
  using execute_returns_records_or_raises
          [of "example_upload [example_upload_item ''/tmp/a.csv'',
                               example_upload_item ''/tmp/b.csv'']"
              example_world "\<lambda>item. PDict [(''id'', PStr (source item))]" "[1, 0]"
              "example_download []" "\<lambda>item. []" "\<lambda>item. None"]
        execute_returns_records_or_raises
          [of "example_upload [example_upload_item ''/tmp/a.csv'',
                               example_upload_item ''/tmp/missing.csv'']"
              example_world "\<lambda>item. PNone" "[1, 0]"
              "example_download []" "\<lambda>item. []" "\<lambda>item. None"]
        execute_returns_records_or_raises
          [of "example_upload []" example_world "\<lambda>item. PNone" "[2, 0]"
              "example_download [example_download_item ''acme/missing'',
                                 example_download_item ''acme/a'',
                                 example_download_item ''acme/missing'']"
              "\<lambda>item. []" "\<lambda>item. None"]
  by (simp add: example_defs upload_outcome_def upload_ids_def download_outcome_def
        download_ids_def)

section \<open>The link resolver\<close>

text \<open>
  Claim C8, as stated, fails on the host name: the link built for \<open>{"id": "abc123"}\<close> is
  not the one under \<open>r2index.example.com\<close>.
\<close>

theorem get_link_spec_host_counterexample:
  "get_link (\<lambda>v. []) (PDict [(''id'', PStr ''abc123'')])
     \<noteq> Inr ''https://r2index.example.com/files/abc123''"
  by (simp add: get_link_def dict_get_def py_str_def)

text \<open>
  Claim C8, amended. The link is \<open>https://r2index.elaunira.com/files/{id}\<close>, where the
  identifier is the value's own truthy \<open>id\<close> or else the truthy \<open>id\<close> of its
  \<open>file_record\<close> dictionary. It is the empty string when the value is not a dictionary,
  or has no truthy \<open>id\<close> and either no \<open>file_record\<close> or a \<open>file_record\<close> dictionary
  without a truthy \<open>id\<close>; the empty dictionary is such a value. The three values of the
  specification give the links it lists, under that host.
\<close>

theorem get_link_elaunira_url:
  "get_link repr (PDict [(''id'', PStr ''abc123'')])
     = Inr ''https://r2index.elaunira.com/files/abc123''
   \<and> get_link repr (PDict [(''file_record'', PDict [(''id'', PStr ''xyz'')])])
     = Inr ''https://r2index.elaunira.com/files/xyz''
   \<and> get_link repr (PDict []) = Inr []
   \<and> (truthy (dict_get d ''id'')
        \<longrightarrow> get_link repr (PDict d)
              = Inr (''https://r2index.elaunira.com/files/'' @ py_str repr (dict_get d ''id'')))
   \<and> (\<not> truthy (dict_get d ''id'') \<and> dict_get_default d ''file_record'' (PDict []) = PDict fr
        \<longrightarrow> get_link repr (PDict d)
              = (if truthy (dict_get fr ''id'')
                 then Inr (''https://r2index.elaunira.com/files/''
                            @ py_str repr (dict_get fr ''id''))
                 else Inr []))
   \<and> ((\<forall>d'. v \<noteq> PDict d') \<longrightarrow> get_link repr v = Inr [])"
proof (intro conjI impI)
  show "get_link repr (PDict [(''id'', PStr ''abc123'')])
          = Inr ''https://r2index.elaunira.com/files/abc123''"
    by (simp add: get_link_def dict_get_def py_str_def)
  show "get_link repr (PDict [(''file_record'', PDict [(''id'', PStr ''xyz'')])])
          = Inr ''https://r2index.elaunira.com/files/xyz''"
    by (simp add: get_link_def dict_get_def dict_get_default_def py_str_def)
  show "get_link repr (PDict []) = Inr []"
    by (simp add: get_link_def)
next
  assume a: "truthy (dict_get d ''id'')"
  then have "d \<noteq> []" by (auto simp: dict_get_def)
  with a show "get_link repr (PDict d)
          = Inr (''https://r2index.elaunira.com/files/'' @ py_str repr (dict_get d ''id''))"
    by (simp add: get_link_def)
next
  assume a: "\<not> truthy (dict_get d ''id'')
             \<and> dict_get_default d ''file_record'' (PDict []) = PDict fr"
  show "get_link repr (PDict d)
          = (if truthy (dict_get fr ''id'')
             then Inr (''https://r2index.elaunira.com/files/'' @ py_str repr (dict_get fr ''id''))
             else Inr [])"
  proof (cases "d = []")
    case True
    with a have "fr = []" by (simp add: dict_get_default_def)
    with True show ?thesis by (simp add: get_link_def dict_get_def)
  next
    case False
    with a show ?thesis by (simp add: get_link_def)
  qed
next
  assume "\<forall>d'. v \<noteq> PDict d'"
  then show "get_link repr v = Inr []"
    by (cases v) (simp_all add: get_link_def)
qed

text \<open>
  A numeric \<open>id\<close> of 0 is falsy, so the identifier of the file record is taken; a list,
  which is what both operators return, has no link.
\<close>

theorem get_link_elaunira_url_witness:
  "get_link (\<lambda>v. []) (PDict [(''id'', PInt 0), (''file_record'', PDict [(''id'', PStr ''xyz'')])])
     = Inr ''https://r2index.elaunira.com/files/xyz''
   \<and> get_link (\<lambda>v. []) (PDict [(''id'', PStr ''abc123''), (''file_record'', PNone)])
     = Inr ''https://r2index.elaunira.com/files/abc123''
   \<and> get_link (\<lambda>v. []) (PList [PDict [(''id'', PStr ''abc123'')]]) = Inr []"
  using get_link_elaunira_url
          [of "\<lambda>v. []" "[(''id'', PInt 0), (''file_record'', PDict [(''id'', PStr ''xyz'')])]"
              "[(''id'', PStr ''xyz'')]" "PList [PDict [(''id'', PStr ''abc123'')]]"]
        get_link_elaunira_url
          [of "\<lambda>v. []" "[(''id'', PStr ''abc123''), (''file_record'', PNone)]" "[]" PNone]
  by (simp add: dict_get_def dict_get_default_def py_str_def)

section \<open>Vault-mediated resolution\<close>

lemma secret_data_or:
  "(case data of None \<Rightarrow> [] | Some d' \<Rightarrow> (if d' \<noteq> [] then d' else [])) = secret_data data"
  by (cases data) (simp_all add: secret_data_def)

lemma get_secret_value_lookup:
  assumes "cache_ok hook secret_cache"
  shows "fst (get_secret_value hook secrets config_key (secret_cache, ev))
           = secret_lookup hook secrets config_key"
    and "cache_ok hook (fst (snd (get_secret_value hook secrets config_key (secret_cache, ev))))"
proof -
  have "fst (get_secret_value hook secrets config_key (secret_cache, ev))
           = secret_lookup hook secrets config_key
        \<and> cache_ok hook
            (fst (snd (get_secret_value hook secrets config_key (secret_cache, ev))))"
  proof (cases secrets)
    case (PDict m)
    show ?thesis
    proof (cases "truthy (dict_get m config_key)")
      case False
      with PDict assms show ?thesis
        by (simp add: get_secret_value_def secret_lookup_def)
    next
      case True
      show ?thesis
      proof (cases "dict_get m config_key")
        case (PStr r)
        show ?thesis
        proof (cases "parse_secret_ref r config_key")
          case (Inl e)
          with PDict True PStr assms show ?thesis
            by (simp add: get_secret_value_def secret_lookup_def)
        next
          case (Inr pk)
          obtain path key where pk: "pk = (path, key)" by (cases pk)
          show ?thesis
          proof (cases "secret_cache path")
            case (Some d)
            with assms obtain data where "hook path = Inr data" "d = secret_data data"
              by (auto simp: cache_ok_def)
            with PDict True PStr Inr pk Some assms show ?thesis
              by (simp add: get_secret_value_def secret_lookup_def)
          next
            case None
            show ?thesis
            proof (cases "hook path")
              case (Inl e)
              with PDict True PStr Inr pk None assms show ?thesis
                by (simp add: get_secret_value_def secret_lookup_def)
            next
              case hp: (Inr data)
              with assms have "cache_ok hook (secret_cache(path \<mapsto> secret_data data))"
                by (simp add: cache_ok_def)
              with PDict True PStr Inr pk None hp show ?thesis
                by (simp add: get_secret_value_def secret_lookup_def secret_data_or Let_def)
            qed
          qed
        qed
      qed (use PDict True assms in \<open>simp_all add: get_secret_value_def secret_lookup_def\<close>)
    qed
  qed (use assms in \<open>simp_all add: get_secret_value_def secret_lookup_def\<close>)
  then show "fst (get_secret_value hook secrets config_key (secret_cache, ev))
           = secret_lookup hook secrets config_key"
    and "cache_ok hook (fst (snd (get_secret_value hook secrets config_key (secret_cache, ev))))"
    by simp_all
qed

lemma get_secret_values_lookup:
  assumes "cache_ok hook secret_cache"
  shows "fst (get_secret_values hook secrets fs (secret_cache, ev))
           = comprehension
               (\<lambda>(field, config_key).
                  case secret_lookup hook secrets config_key of
                    Inl e \<Rightarrow> Inl e
                  | Inr v \<Rightarrow> Inr (field, v))
               fs"
  using assms
proof (induction fs arbitrary: secret_cache ev)
  case Nil
  then show ?case by simp
next
  case (Cons fk fs)
  obtain field config_key where fk: "fk = (field, config_key)" by (cases fk)
  obtain r secret_cache' ev' where
    g: "get_secret_value hook secrets config_key (secret_cache, ev) = (r, secret_cache', ev')"
    by (cases "get_secret_value hook secrets config_key (secret_cache, ev)") auto
  from get_secret_value_lookup [OF Cons.prems, of secrets config_key ev] g
  have r: "secret_lookup hook secrets config_key = r" and ok: "cache_ok hook secret_cache'"
    by simp_all
  obtain r2 secret_cache'' ev'' where
    g2: "get_secret_values hook secrets fs (secret_cache', ev') = (r2, secret_cache'', ev'')"
    by (cases "get_secret_values hook secrets fs (secret_cache', ev')") auto
  from Cons.IH [OF ok, of ev'] g2
  have r2: "comprehension
               (\<lambda>(field, config_key).
                  case secret_lookup hook secrets config_key of
                    Inl e \<Rightarrow> Inl e
                  | Inr v \<Rightarrow> Inr (field, v))
               fs = r2"
    by simp
  from fk g r g2 r2 show ?case by (cases r; cases r2) simp_all
qed

lemma comprehension_fails:
  "\<exists>x \<in> set xs. isl (f x) \<Longrightarrow> isl (comprehension f xs)"
proof (induction xs)
  case Nil
  then show ?case by simp
next
  case (Cons a xs)
  show ?case
  proof (cases "f a")
    case (Inl e)
    then show ?thesis by simp
  next
    case (Inr y)
    with Cons.prems have "\<exists>x \<in> set xs. isl (f x)" by auto
    from Cons.IH [OF this] Inr show ?thesis by (cases "comprehension f xs") simp_all
  qed
qed

lemma get_config_from_vault_lookup:
  "fst (get_config_from_vault w vault_conn_id secrets namespace) =
     (case VaultHook w vault_conn_id of
        Inl e \<Rightarrow> None
      | Inr hook \<Rightarrow>
          (case comprehension
                  (\<lambda>(field, config_key).
                     case secret_lookup hook secrets config_key of
                       Inl e \<Rightarrow> Inl e
                     | Inr v \<Rightarrow> Inr (field, v))
                  config_fields of
             Inl e \<Rightarrow> None
           | Inr config \<Rightarrow> Some config))"
proof (cases "VaultHook w vault_conn_id")
  case (Inl e)
  then show ?thesis by (simp add: get_config_from_vault_def)
next
  case (Inr hook)
  have ok: "cache_ok hook Map.empty" by (simp add: cache_ok_def)
  obtain r c ev where
    g: "get_secret_values hook secrets config_fields (Map.empty, [VaultHookInit vault_conn_id])
          = (r, c, ev)"
    by (cases "get_secret_values hook secrets config_fields
                 (Map.empty, [VaultHookInit vault_conn_id])") auto
  from get_secret_values_lookup [OF ok, of secrets config_fields "[VaultHookInit vault_conn_id]"] g
  have "r = comprehension
               (\<lambda>(field, config_key).
                  case secret_lookup hook secrets config_key of
                    Inl e \<Rightarrow> Inl e
                  | Inr v \<Rightarrow> Inr (field, v))
               config_fields"
    by simp
  with Inr g show ?thesis
    by (simp add: get_config_from_vault_def split: sum.splits)
qed

text \<open>
  Claim C5, as stated, fails: when the fetch of one key's secret raises while the other
  fetches succeed, the vault resolution gives no configuration at all, not one lacking
  that key.
\<close>

theorem vault_fetch_error_counterexample:
  "example_vault (Inl (HostError ''permission denied'')) ''cloudflare/token''
     = Inl (HostError ''permission denied'')
   \<and> \<not> isl (example_vault (Inl (HostError ''permission denied'')) ''cloudflare/r2index'')
   \<and> \<not> isl (example_vault (Inl (HostError ''permission denied'')) ''cloudflare/r2/airflow'')
   \<and> fst (get_config_from_vault (vault_world (Inl (HostError ''permission denied'')))
             (PStr ''openbao_default'') example_secrets PNone) = None"
  by (simp add: get_config_from_vault_lookup vault_world_def example_world_def example_vault_def
        example_secrets_def config_fields_def secret_lookup_def secret_data_def dict_get_def
        parse_secret_ref_def rsplit_once_def)

text \<open>
  Claim C5, amended. With the vault hook open, when no lookup raises the configuration
  has, for each of the five keys, the value of its own lookup, so a key whose secret is
  missing is the only one absent; when the lookup of some key raises, and when the hook's
  constructor raises, the resolution gives no configuration, and as a function it raises
  nothing. A lookup gives \<open>None\<close> for a key that the mapping does not name; for a
  reference it gives the entry of the parsed key in the data fetched for the parsed path,
  \<open>None\<close> when the secret does not exist or lacks the key; and it raises when the fetch
  does.
\<close>

theorem vault_missing_key_absent_error_none:
  "(VaultHook w vault_conn_id = Inr hook
      \<and> (\<forall>(field, config_key) \<in> set config_fields.
            secret_lookup hook secrets config_key = Inr (v config_key))
      \<longrightarrow> fst (get_config_from_vault w vault_conn_id secrets namespace)
            = Some (map (\<lambda>(field, config_key). (field, v config_key)) config_fields))
   \<and> (VaultHook w vault_conn_id = Inr hook
      \<and> (\<exists>(field, config_key) \<in> set config_fields. isl (secret_lookup hook secrets config_key))
      \<longrightarrow> fst (get_config_from_vault w vault_conn_id secrets namespace) = None)
   \<and> (isl (VaultHook w vault_conn_id)
      \<longrightarrow> fst (get_config_from_vault w vault_conn_id secrets namespace) = None)
   \<and> (\<not> truthy (dict_get m config_key)
      \<longrightarrow> secret_lookup hook (PDict m) config_key = Inr PNone)
   \<and> (dict_get m config_key = PStr r \<and> r \<noteq> [] \<and> parse_secret_ref r config_key = Inr (path, key)
      \<longrightarrow> secret_lookup hook (PDict m) config_key =
            (case hook path of
               Inl e \<Rightarrow> Inl e
             | Inr None \<Rightarrow> Inr PNone
             | Inr (Some d) \<Rightarrow> Inr (dict_get d key)))"
proof (intro conjI impI)
  assume a: "VaultHook w vault_conn_id = Inr hook
      \<and> (\<forall>(field, config_key) \<in> set config_fields.
            secret_lookup hook secrets config_key = Inr (v config_key))"
  then have "comprehension
               (\<lambda>(field, config_key).
                  case secret_lookup hook secrets config_key of
                    Inl e \<Rightarrow> Inl e
                  | Inr v \<Rightarrow> Inr (field, v))
               config_fields
             = Inr (map (\<lambda>(field, config_key). (field, v config_key)) config_fields)"
    by (intro comprehension_total) auto
  with a show "fst (get_config_from_vault w vault_conn_id secrets namespace)
            = Some (map (\<lambda>(field, config_key). (field, v config_key)) config_fields)"
    by (simp add: get_config_from_vault_lookup)
next
  assume a: "VaultHook w vault_conn_id = Inr hook
      \<and> (\<exists>(field, config_key) \<in> set config_fields. isl (secret_lookup hook secrets config_key))"
  then have "isl (comprehension
               (\<lambda>(field, config_key).
                  case secret_lookup hook secrets config_key of
                    Inl e \<Rightarrow> Inl e
                  | Inr v \<Rightarrow> Inr (field, v))
               config_fields)"
  proof (intro comprehension_fails)
    from a obtain field config_key where
      m: "(field, config_key) \<in> set config_fields"
      and e: "isl (secret_lookup hook secrets config_key)"
      by auto
    from e have "isl (case (field, config_key) of
                        (field, config_key) \<Rightarrow>
                          case secret_lookup hook secrets config_key of
                            Inl e \<Rightarrow> Inl e
                          | Inr v \<Rightarrow> Inr (field, v))"
      by (cases "secret_lookup hook secrets config_key") simp_all
    with m show "\<exists>x \<in> set config_fields.
                   isl (case x of
                          (field, config_key) \<Rightarrow>
                            case secret_lookup hook secrets config_key of
                              Inl e \<Rightarrow> Inl e
                            | Inr v \<Rightarrow> Inr (field, v))"
      by (rule rev_bexI)
  qed
  with a show "fst (get_config_from_vault w vault_conn_id secrets namespace) = None"
    by (auto simp: get_config_from_vault_lookup split: sum.splits)
next
  assume "isl (VaultHook w vault_conn_id)"
  then show "fst (get_config_from_vault w vault_conn_id secrets namespace) = None"
    by (auto simp: get_config_from_vault_lookup split: sum.splits)
next
  assume "\<not> truthy (dict_get m config_key)"
  then show "secret_lookup hook (PDict m) config_key = Inr PNone"
    by (simp add: secret_lookup_def)
next
  assume "dict_get m config_key = PStr r \<and> r \<noteq> []
          \<and> parse_secret_ref r config_key = Inr (path, key)"
  then show "secret_lookup hook (PDict m) config_key =
            (case hook path of
               Inl e \<Rightarrow> Inl e
             | Inr None \<Rightarrow> Inr PNone
             | Inr (Some d) \<Rightarrow> Inr (dict_get d key))"
    by (simp add: secret_lookup_def secret_data_def dict_get_def
          split: sum.splits option.splits)
qed

text \<open>
  The token's secret does not exist: the token alone is absent. The vault connection is
  unknown: nothing is resolved.
\<close>

theorem vault_missing_key_absent_error_none_witness:
  "fst (get_config_from_vault (vault_world (Inr None)) (PStr ''openbao_default'')
          example_secrets PNone)
     = Some [(''index_api_url'', PStr ''https://index.test''),
             (''index_api_token'', PNone),
             (''r2_access_key_id'', PStr ''AK''),
             (''r2_secret_access_key'', PStr ''SK''),
             (''r2_endpoint_url'', PStr ''https://r2.test'')]
   \<and> fst (get_config_from_vault (vault_world (Inr None)) (PStr ''elsewhere'')
          example_secrets PNone) = None"
  using vault_missing_key_absent_error_none
          [of "vault_world (Inr None)" "PStr ''openbao_default''" "example_vault (Inr None)"
              example_secrets
              "\<lambda>k. if k = ''r2index_api_url'' then PStr ''https://index.test''
                    else if k = ''r2index_api_token'' then PNone
                    else if k = ''r2_access_key_id'' then PStr ''AK''
                    else if k = ''r2_secret_access_key'' then PStr ''SK''
                    else PStr ''https://r2.test''"
              PNone "[]" "''k''" "''p''" "''p''" "''k''"]
        vault_missing_key_absent_error_none
          [of "vault_world (Inr None)" "PStr ''elsewhere''" "example_vault (Inr None)"
              example_secrets "\<lambda>k. PNone" PNone "[]" "''k''" "''p''" "''p''" "''k''"]
  by (simp add: vault_world_def example_world_def example_vault_def
        example_secrets_def config_fields_def secret_lookup_def secret_data_def dict_get_def
        parse_secret_ref_def rsplit_once_def)

section \<open>The resolution chain\<close>

lemma get_config_from_connection_fst:
  "fst (get_config_from_connection w conn_id) =
     (case get_connection w conn_id of
        Inl e \<Rightarrow> None
      | Inr conn \<Rightarrow>
          (if truthy (dict_get (extra_dejson conn) ''vault_conn_id'') then
             (if \<not> truthy (dict_get (extra_dejson conn) ''vault_secrets_mapping'') then None
              else
                (case (case dict_get (extra_dejson conn) ''vault_secrets_mapping'' of
                         PStr s \<Rightarrow> json_loads w s
                       | _ \<Rightarrow> Inr (dict_get (extra_dejson conn) ''vault_secrets_mapping'')) of
                   Inl e \<Rightarrow> None
                 | Inr secrets \<Rightarrow>
                     fst (get_config_from_vault w
                            (dict_get (extra_dejson conn) ''vault_conn_id'') secrets
                            (dict_get (extra_dejson conn) ''vault_namespace''))))
           else Some (direct_fields conn)))"
  by (simp add: get_config_from_connection_def direct_fields_def Let_def
           split: sum.splits prod.splits)

lemma get_client_config_fst:
  "fst (get_client_config w conn_id) =
     (case fst (get_config_from_connection w conn_id) of
        None \<Rightarrow> fst (get_config_from_env w)
      | Some config \<Rightarrow> (if usable config then config else fst (get_config_from_env w)))"
  by (auto simp: get_client_config_def usable_def get_config_from_env_def
           split: prod.splits option.splits)

lemma get_secret_value_events:
  assumes "\<forall>e \<in> set ev. \<not> is_env_read e"
  shows "\<forall>e \<in> set (snd (snd (get_secret_value hook secrets config_key (secret_cache, ev)))).
           \<not> is_env_read e"
  using assms
  by (auto simp: get_secret_value_def Let_def
           split: pyval.splits sum.splits prod.splits option.splits)

lemma get_secret_values_events:
  assumes "\<forall>e \<in> set ev. \<not> is_env_read e"
  shows "\<forall>e \<in> set (snd (snd (get_secret_values hook secrets fs (secret_cache, ev)))).
           \<not> is_env_read e"
  using assms
proof (induction fs arbitrary: secret_cache ev)
  case Nil
  then show ?case by simp
next
  case (Cons fk fs)
  obtain field config_key where fk: "fk = (field, config_key)" by (cases fk)
  obtain r secret_cache' ev' where
    g: "get_secret_value hook secrets config_key (secret_cache, ev) = (r, secret_cache', ev')"
    by (cases "get_secret_value hook secrets config_key (secret_cache, ev)") auto
  from get_secret_value_events [OF Cons.prems, of hook secrets config_key secret_cache] g
  have ev': "\<forall>e \<in> set ev'. \<not> is_env_read e" by simp
  obtain r2 secret_cache'' ev'' where
    g2: "get_secret_values hook secrets fs (secret_cache', ev') = (r2, secret_cache'', ev'')"
    by (cases "get_secret_values hook secrets fs (secret_cache', ev')") auto
  from Cons.IH [OF ev', of secret_cache'] g2
  have ev'': "\<forall>e \<in> set ev''. \<not> is_env_read e" by simp
  from fk g g2 ev' ev'' show ?case by (cases r; cases r2) simp_all
qed

lemma get_config_from_vault_events:
  "\<forall>e \<in> set (snd (get_config_from_vault w vault_conn_id secrets namespace)). \<not> is_env_read e"
proof (cases "VaultHook w vault_conn_id")
  case (Inl e)
  then show ?thesis by (simp add: get_config_from_vault_def)
next
  case (Inr hook)
  obtain r c ev where
    g: "get_secret_values hook secrets config_fields (Map.empty, [VaultHookInit vault_conn_id])
          = (r, c, ev)"
    by (cases "get_secret_values hook secrets config_fields
                 (Map.empty, [VaultHookInit vault_conn_id])") auto
  have "\<forall>e \<in> set [VaultHookInit vault_conn_id]. \<not> is_env_read e" by simp
  from get_secret_values_events [OF this, of hook secrets config_fields Map.empty] g
  have "\<forall>e \<in> set ev. \<not> is_env_read e" by simp
  with Inr g show ?thesis by (cases r) (simp_all add: get_config_from_vault_def)
qed

lemma get_config_from_connection_events:
  "\<forall>e \<in> set (snd (get_config_from_connection w conn_id)). \<not> is_env_read e"
  by (simp add: get_config_from_connection_def Let_def case_prod_unfold
        get_config_from_vault_events split: sum.splits pyval.splits)

lemma get_client_config_env_read:
  "(\<exists>e \<in> set (snd (get_client_config w conn_id)). is_env_read e) \<longleftrightarrow>
     (case fst (get_config_from_connection w conn_id) of
        None \<Rightarrow> True
      | Some config \<Rightarrow> \<not> usable config)"
proof -
  obtain config ev where g: "get_config_from_connection w conn_id = (config, ev)"
    by (cases "get_config_from_connection w conn_id")
  with get_config_from_connection_events [of w conn_id]
  have ev: "\<forall>e \<in> set ev. \<not> is_env_read e" by simp
  show ?thesis
  proof (cases "case config of None \<Rightarrow> True | Some c \<Rightarrow> \<not> usable c")
    case True
    with g show ?thesis
      by (auto simp: get_client_config_def usable_def get_config_from_env_def
               split: option.splits)
  next
    case False
    with g ev show ?thesis
      by (auto simp: get_client_config_def usable_def split: option.splits)
  qed
qed

lemma get_config_from_vault_world:
  "VaultHook w' = VaultHook w \<Longrightarrow>
   get_config_from_vault w' vault_conn_id secrets namespace
     = get_config_from_vault w vault_conn_id secrets namespace"
  by (simp add: get_config_from_vault_def)

text \<open>
  Claim C4, as stated, fails: resolution is not a first-usable chain over the three
  tiers. The connection below carries a vault reference and usable direct fields; the
  fetch of one secret raises, so the vault tier gives nothing. The chain would go on to
  the direct fields; the code goes to the environment, here empty, and the configuration
  it returns has no \<open>index_api_url\<close>.
\<close>

theorem first_usable_chain_counterexample:
  "first_usable_chain (vault_world (Inl (HostError ''permission denied''))) ''r2index_default''
     = [(''index_api_url'', PStr ''https://direct.test''),
        (''index_api_token'', PStr ''direct-token''),
        (''r2_access_key_id'', PNone), (''r2_secret_access_key'', PNone),
        (''r2_endpoint_url'', PNone)]
   \<and> fst (get_client_config (vault_world (Inl (HostError ''permission denied'')))
            ''r2index_default'')
     = [(''index_api_url'', PNone), (''index_api_token'', PNone),
        (''r2_access_key_id'', PNone), (''r2_secret_access_key'', PNone),
        (''r2_endpoint_url'', PNone)]"
  by (simp add: first_usable_chain_def vault_tier_def direct_tier_def env_tier_def
        get_client_config_fst get_config_from_connection_fst get_config_from_vault_lookup
        get_config_from_env_def direct_fields_def usable_def opt_str_def
        vault_world_def example_world_def example_vault_def example_secrets_def
        config_fields_def secret_lookup_def secret_data_def dict_get_def
        parse_secret_ref_def rsplit_once_def)

text \<open>
  Claim C4, amended. Resolution has two stages, the connection and then the
  environment. The configuration is the connection's when that one is usable, and
  otherwise the environment's, whole; the environment is read exactly when the
  connection gave no configuration or an unusable one, and reading it cannot fail:
  an absent variable gives \<open>None\<close>. A connection with a vault reference is resolved
  through the vault alone: what it gives is what the vault resolution gives for its
  secrets mapping (decoded first when it is a string), and nothing without a mapping or
  when the decoding fails; so a usable configuration from the vault is the configuration
  returned, without a read of the environment, although direct fields exist, and direct
  fields are not used when the vault gives nothing. Connections that agree on the vault
  reference, the secrets mapping and the namespace resolve alike whatever their direct
  fields. A connection without a vault reference gives its direct fields, and a
  connection that cannot be looked up gives no configuration.
\<close>

theorem connection_then_environment:
  "fst (get_client_config w conn_id) =
     (case fst (get_config_from_connection w conn_id) of
        None \<Rightarrow> fst (get_config_from_env w)
      | Some config \<Rightarrow> (if usable config then config else fst (get_config_from_env w)))
   \<and> ((\<exists>e \<in> set (snd (get_client_config w conn_id)). is_env_read e) \<longleftrightarrow>
        (case fst (get_config_from_connection w conn_id) of
           None \<Rightarrow> True
         | Some config \<Rightarrow> \<not> usable config))
   \<and> fst (get_config_from_env w) =
        [(''index_api_url'', opt_str (environ w ''R2INDEX_API_URL'')),
         (''index_api_token'', opt_str (environ w ''R2INDEX_API_TOKEN'')),
         (''r2_access_key_id'', opt_str (environ w ''R2_ACCESS_KEY_ID'')),
         (''r2_secret_access_key'', opt_str (environ w ''R2_SECRET_ACCESS_KEY'')),
         (''r2_endpoint_url'', opt_str (environ w ''R2_ENDPOINT_URL''))]
   \<and> (get_connection w conn_id = Inr conn \<and> get_connection w' conn_id = Inr conn'
        \<and> VaultHook w' = VaultHook w \<and> json_loads w' = json_loads w
        \<and> truthy (dict_get (extra_dejson conn) ''vault_conn_id'')
        \<and> (\<forall>k \<in> {''vault_conn_id'', ''vault_secrets_mapping'', ''vault_namespace''}.
              dict_get (extra_dejson conn') k = dict_get (extra_dejson conn) k)
        \<longrightarrow> fst (get_config_from_connection w' conn_id)
              = fst (get_config_from_connection w conn_id))
   \<and> (get_connection w conn_id = Inr conn
        \<and> \<not> truthy (dict_get (extra_dejson conn) ''vault_conn_id'')
        \<longrightarrow> fst (get_config_from_connection w conn_id) = Some (direct_fields conn))
   \<and> (isl (get_connection w conn_id)
        \<longrightarrow> fst (get_config_from_connection w conn_id) = None)
   \<and> (get_connection w conn_id = Inr conn
        \<and> truthy (dict_get (extra_dejson conn) ''vault_conn_id'')
        \<longrightarrow> fst (get_config_from_connection w conn_id) =
              (if \<not> truthy (dict_get (extra_dejson conn) ''vault_secrets_mapping'') then None
               else
                 (case (case dict_get (extra_dejson conn) ''vault_secrets_mapping'' of
                          PStr s \<Rightarrow> json_loads w s
                        | _ \<Rightarrow> Inr (dict_get (extra_dejson conn) ''vault_secrets_mapping'')) of
                    Inl e \<Rightarrow> None
                  | Inr secrets \<Rightarrow>
                      fst (get_config_from_vault w
                             (dict_get (extra_dejson conn) ''vault_conn_id'') secrets
                             (dict_get (extra_dejson conn) ''vault_namespace'')))))
   \<and> (get_connection w conn_id = Inr conn
        \<and> truthy (dict_get (extra_dejson conn) ''vault_conn_id'')
        \<and> dict_get (extra_dejson conn) ''vault_secrets_mapping'' = PDict m \<and> m \<noteq> []
        \<and> fst (get_config_from_vault w (dict_get (extra_dejson conn) ''vault_conn_id'')
                   (PDict m) (dict_get (extra_dejson conn) ''vault_namespace'')) = Some config
        \<and> usable config
        \<longrightarrow> fst (get_client_config w conn_id) = config
            \<and> \<not> (\<exists>e \<in> set (snd (get_client_config w conn_id)). is_env_read e))"
proof (intro conjI impI)
  show "fst (get_client_config w conn_id) =
     (case fst (get_config_from_connection w conn_id) of
        None \<Rightarrow> fst (get_config_from_env w)
      | Some config \<Rightarrow> (if usable config then config else fst (get_config_from_env w)))"
    by (rule get_client_config_fst)
  show "(\<exists>e \<in> set (snd (get_client_config w conn_id)). is_env_read e) \<longleftrightarrow>
        (case fst (get_config_from_connection w conn_id) of
           None \<Rightarrow> True
         | Some config \<Rightarrow> \<not> usable config)"
    by (rule get_client_config_env_read)
  show "fst (get_config_from_env w) =
        [(''index_api_url'', opt_str (environ w ''R2INDEX_API_URL'')),
         (''index_api_token'', opt_str (environ w ''R2INDEX_API_TOKEN'')),
         (''r2_access_key_id'', opt_str (environ w ''R2_ACCESS_KEY_ID'')),
         (''r2_secret_access_key'', opt_str (environ w ''R2_SECRET_ACCESS_KEY'')),
         (''r2_endpoint_url'', opt_str (environ w ''R2_ENDPOINT_URL''))]"
    by (simp add: get_config_from_env_def)
next
  assume a: "get_connection w conn_id = Inr conn \<and> get_connection w' conn_id = Inr conn'
        \<and> VaultHook w' = VaultHook w \<and> json_loads w' = json_loads w
        \<and> truthy (dict_get (extra_dejson conn) ''vault_conn_id'')
        \<and> (\<forall>k \<in> {''vault_conn_id'', ''vault_secrets_mapping'', ''vault_namespace''}.
              dict_get (extra_dejson conn') k = dict_get (extra_dejson conn) k)"
  then have v: "VaultHook w' = VaultHook w" and j: "json_loads w' = json_loads w"
    and c: "get_connection w conn_id = Inr conn" and c': "get_connection w' conn_id = Inr conn'"
    and e1: "dict_get (extra_dejson conn') ''vault_conn_id''
               = dict_get (extra_dejson conn) ''vault_conn_id''"
    and e2: "dict_get (extra_dejson conn') ''vault_secrets_mapping''
               = dict_get (extra_dejson conn) ''vault_secrets_mapping''"
    and e3: "dict_get (extra_dejson conn') ''vault_namespace''
               = dict_get (extra_dejson conn) ''vault_namespace''"
    and t: "truthy (dict_get (extra_dejson conn) ''vault_conn_id'')"
    by simp_all
  show "fst (get_config_from_connection w' conn_id)
          = fst (get_config_from_connection w conn_id)"
    by (simp only: get_config_from_connection_fst c c' sum.case e1 e2 e3 j t if_True
          get_config_from_vault_world [OF v])
next
  assume "get_connection w conn_id = Inr conn
        \<and> \<not> truthy (dict_get (extra_dejson conn) ''vault_conn_id'')"
  then show "fst (get_config_from_connection w conn_id) = Some (direct_fields conn)"
    by (simp add: get_config_from_connection_fst)
next
  assume "isl (get_connection w conn_id)"
  then show "fst (get_config_from_connection w conn_id) = None"
    by (cases "get_connection w conn_id") (simp_all add: get_config_from_connection_fst)
next
  assume "get_connection w conn_id = Inr conn
        \<and> truthy (dict_get (extra_dejson conn) ''vault_conn_id'')"
  then show "fst (get_config_from_connection w conn_id) =
              (if \<not> truthy (dict_get (extra_dejson conn) ''vault_secrets_mapping'') then None
               else
                 (case (case dict_get (extra_dejson conn) ''vault_secrets_mapping'' of
                          PStr s \<Rightarrow> json_loads w s
                        | _ \<Rightarrow> Inr (dict_get (extra_dejson conn) ''vault_secrets_mapping'')) of
                    Inl e \<Rightarrow> None
                  | Inr secrets \<Rightarrow>
                      fst (get_config_from_vault w
                             (dict_get (extra_dejson conn) ''vault_conn_id'') secrets
                             (dict_get (extra_dejson conn) ''vault_namespace''))))"
    by (simp add: get_config_from_connection_fst)
next
  assume a: "get_connection w conn_id = Inr conn
        \<and> truthy (dict_get (extra_dejson conn) ''vault_conn_id'')
        \<and> dict_get (extra_dejson conn) ''vault_secrets_mapping'' = PDict m \<and> m \<noteq> []
        \<and> fst (get_config_from_vault w (dict_get (extra_dejson conn) ''vault_conn_id'')
                   (PDict m) (dict_get (extra_dejson conn) ''vault_namespace'')) = Some config
        \<and> usable config"
  then have c: "fst (get_config_from_connection w conn_id) = Some config"
    by (simp add: get_config_from_connection_fst)
  from a have u: "usable config" by simp
  from c u show "fst (get_client_config w conn_id) = config"
    by (simp add: get_client_config_fst)
next
  assume a: "get_connection w conn_id = Inr conn
        \<and> truthy (dict_get (extra_dejson conn) ''vault_conn_id'')
        \<and> dict_get (extra_dejson conn) ''vault_secrets_mapping'' = PDict m \<and> m \<noteq> []
        \<and> fst (get_config_from_vault w (dict_get (extra_dejson conn) ''vault_conn_id'')
                   (PDict m) (dict_get (extra_dejson conn) ''vault_namespace'')) = Some config
        \<and> usable config"
  then have c: "fst (get_config_from_connection w conn_id) = Some config"
    by (simp add: get_config_from_connection_fst)
  from a have u: "usable config" by simp
  from c u show "\<not> (\<exists>e \<in> set (snd (get_client_config w conn_id)). is_env_read e)"
    by (simp add: get_client_config_env_read)
qed

text \<open>
  With every secret in the vault the vault's values are used, not the direct fields of
  the same connection, and the environment is not read; without any connection the environment is read and gives its one
  variable; and a connection with the same vault reference and mapping but other direct
  fields resolves the same.
\<close>

theorem connection_then_environment_witness:
  "fst (get_client_config (vault_world (Inr (Some [(''api-token'', PStr ''vault-token'')])))
          ''r2index_default'')
     = [(''index_api_url'', PStr ''https://index.test''),
        (''index_api_token'', PStr ''vault-token''),
        (''r2_access_key_id'', PStr ''AK''),
        (''r2_secret_access_key'', PStr ''SK''),
        (''r2_endpoint_url'', PStr ''https://r2.test'')]
   \<and> \<not> (\<exists>e \<in> set (snd (get_client_config
                         (vault_world (Inr (Some [(''api-token'', PStr ''vault-token'')])))
                         ''r2index_default'')). is_env_read e)
   \<and> (\<exists>e \<in> set (snd (get_client_config env_world ''r2index_default'')). is_env_read e)
   \<and> fst (get_client_config env_world ''r2index_default'')
     = [(''index_api_url'', PStr ''https://env.test''), (''index_api_token'', PNone),
        (''r2_access_key_id'', PNone), (''r2_secret_access_key'', PNone),
        (''r2_endpoint_url'', PNone)]
   \<and> fst (get_config_from_connection
            ((vault_world (Inr None))
               \<lparr>get_connection :=
                  (\<lambda>c. Inr \<lparr>host = None, password = None,
                              extra_dejson =
                                [(''r2_endpoint_url'', PStr ''https://other.test''),
                                 (''vault_conn_id'', PStr ''openbao_default''),
                                 (''vault_secrets_mapping'', example_secrets)]\<rparr>)\<rparr>)
            ''r2index_default'')
     = fst (get_config_from_connection (vault_world (Inr None)) ''r2index_default'')"
  using connection_then_environment
          [where w = "vault_world (Inr (Some [(''api-token'', PStr ''vault-token'')]))"
             and conn_id = "''r2index_default''"
             and conn = "\<lparr>host = Some ''https://direct.test'',
                            password = Some ''direct-token'',
                            extra_dejson = [(''vault_conn_id'', PStr ''openbao_default''),
                                            (''vault_secrets_mapping'', example_secrets)]\<rparr>"
             and m = "[(''r2index_api_url'', PStr ''cloudflare/r2index#api-url''),
                       (''r2index_api_token'', PStr ''cloudflare/token#api-token''),
                       (''r2_access_key_id'', PStr ''cloudflare/r2/airflow#access-key-id''),
                       (''r2_secret_access_key'',
                        PStr ''cloudflare/r2/airflow#secret-access-key''),
                       (''r2_endpoint_url'', PStr ''cloudflare/r2/airflow#endpoint-url'')]"
             and config = "[(''index_api_url'', PStr ''https://index.test''),
                            (''index_api_token'', PStr ''vault-token''),
                            (''r2_access_key_id'', PStr ''AK''),
                            (''r2_secret_access_key'', PStr ''SK''),
                            (''r2_endpoint_url'', PStr ''https://r2.test'')]"]
        connection_then_environment [of env_world "''r2index_default''"]
        connection_then_environment
          [where w = "vault_world (Inr None)" and conn_id = "''r2index_default''"
             and conn = "\<lparr>host = Some ''https://direct.test'',
                            password = Some ''direct-token'',
                            extra_dejson = [(''vault_conn_id'', PStr ''openbao_default''),
                                            (''vault_secrets_mapping'', example_secrets)]\<rparr>"
             and w' = "(vault_world (Inr None))
               \<lparr>get_connection :=
                  (\<lambda>c. Inr \<lparr>host = None, password = None,
                              extra_dejson =
                                [(''r2_endpoint_url'', PStr ''https://other.test''),
                                 (''vault_conn_id'', PStr ''openbao_default''),
                                 (''vault_secrets_mapping'', example_secrets)]\<rparr>)\<rparr>"
             and conn' = "\<lparr>host = None, password = None,
                             extra_dejson =
                               [(''r2_endpoint_url'', PStr ''https://other.test''),
                                (''vault_conn_id'', PStr ''openbao_default''),
                                (''vault_secrets_mapping'', example_secrets)]\<rparr>"]
  by (simp add: get_config_from_connection_fst get_config_from_vault_lookup
        usable_def opt_str_def env_world_def
        vault_world_def example_world_def example_vault_def example_secrets_def
        config_fields_def secret_lookup_def secret_data_def dict_get_def
        parse_secret_ref_def rsplit_once_def)

end
